theory Spec2Isabelle
  imports Complex_Main "HOL-Library.Sublist"
begin

section \<open>Tensors, parameters and modules\<close>

text \<open>
  The program is \<^verbatim>\<open>src/model/gpt.py\<close>: the trainers \<^verbatim>\<open>GPTPretrain\<close> and \<^verbatim>\<open>GPT\<close>
  around the modules \<^verbatim>\<open>GPTModel\<close> and \<^verbatim>\<open>GPTFineTune\<close>.

  A token sequence is a list of Python ints, a 2-D token tensor of shape (B, L) a list of
  rows. Floating-point scalars are modelled as reals; no property below depends on
  floating-point arithmetic, only on which values are stored, copied and reset.

  A \<^verbatim>\<open>torch.nn.Module\<close> is modelled by its \<^verbatim>\<open>named_parameters()\<close>: the list of
  qualified parameter names (\<^verbatim>\<open>pretrained_model.decoder.linear.weight\<close>, ...) with the
  parameter stored under each. The submodule reached by an attribute path
  \<^verbatim>\<open>a.b\<close> owns the parameters whose name starts with \<^verbatim>\<open>a.b.\<close>. Buffers and parameters
  shared between two modules are not modelled.
\<close>

type_synonym tokens = "int list"
type_synonym batch = "int list list"
type_synonym logits = "real list list list"

record tensor =
  shape :: "nat list"
  elems :: "real list"

record parameter =
  param_data :: tensor
  requires_grad :: bool

type_synonym module = "(string \<times> parameter) list"
type_synonym state_dict = "(string \<times> tensor) list"

datatype error =
  FileNotFoundError | AttributeError | RuntimeError | ValueError
  | ZeroDivisionError | UnboundLocalError | AssertionError | IndexError

text \<open>\<^verbatim>\<open>self.name = sub\<close> in a module's constructor registers the parameters of \<^verbatim>\<open>sub\<close>
  under the prefix \<^verbatim>\<open>name.\<close>\<close>

definition add_module :: "string \<Rightarrow> module \<Rightarrow> module" where
  "add_module name sub = map (\<lambda>(n, p). (name @ ''.'' @ n, p)) sub"

text \<open>The named parameters of the submodule at prefix \<open>pre\<close>, with names relative to it.\<close>

definition submodule :: "string \<Rightarrow> module \<Rightarrow> module" where
  "submodule pre m = map (\<lambda>(n, p). (drop (length pre) n, p)) (filter (\<lambda>(n, p). prefix pre n) m)"

text \<open>\<^verbatim>\<open>module.parameters()\<close>, as the references an optimizer keeps.\<close>

definition parameters :: "module \<Rightarrow> string list" where
  "parameters m = map fst m"

text \<open>\<^verbatim>\<open>module.state_dict()\<close>: the values only, without the gradient flags.\<close>

definition module_state_dict :: "module \<Rightarrow> state_dict" where
  "module_state_dict m = map (\<lambda>(n, p). (n, param_data p)) m"

text \<open>
  \<^verbatim>\<open>sub.load_state_dict(sd)\<close> for the submodule \<open>sub\<close> of \<open>m\<close> at prefix \<open>pre\<close> (the
  whole module for the empty prefix), in PyTorch's default strict mode: a missing key, an
  unexpected key or a shape mismatch raises \<^verbatim>\<open>RuntimeError\<close>; otherwise each value is
  copied into its parameter, whose \<^verbatim>\<open>requires_grad\<close> flag is kept.
\<close>

definition load_state_dict :: "string \<Rightarrow> module \<Rightarrow> state_dict \<Rightarrow> error + module" where
  "load_state_dict pre m sd =
    (let own = submodule pre m;
         missing_keys = filter (\<lambda>k. map_of sd k = None) (map fst own);
         unexpected_keys = filter (\<lambda>k. k \<notin> set (map fst own)) (map fst sd);
         size_mismatch = filter (\<lambda>(k, p). case map_of sd k of None \<Rightarrow> False
                                   | Some t \<Rightarrow> shape t \<noteq> shape (param_data p)) own
     in if missing_keys = [] \<and> unexpected_keys = [] \<and> size_mismatch = []
        then Inr (map (\<lambda>(n, p). if prefix pre n
                        then (case map_of sd (drop (length pre) n) of None \<Rightarrow> (n, p)
                              | Some t \<Rightarrow> (n, p\<lparr>param_data := t\<rparr>))
                        else (n, p)) m)
        else Inl RuntimeError)"

text \<open>
  Setting \<^verbatim>\<open>requires_grad\<close> on every parameter of the submodule at prefix \<open>pre\<close>: both
  the loop \<^verbatim>\<open>for params in sub.parameters(): params.requires_grad = b\<close> and the call
  \<^verbatim>\<open>sub.requires_grad_(b)\<close>.
\<close>

definition set_requires_grad :: "string \<Rightarrow> bool \<Rightarrow> module \<Rightarrow> module" where
  "set_requires_grad pre b m =
     map (\<lambda>(n, p). if prefix pre n then (n, p\<lparr>requires_grad := b\<rparr>) else (n, p)) m"

text \<open>
  \<^verbatim>\<open>GPTModel.__init__\<close> and \<^verbatim>\<open>GPTFineTune.__init__\<close>. The freshly initialised
  \<^verbatim>\<open>nn.Embedding\<close>, \<^verbatim>\<open>Decoder\<close> and \<^verbatim>\<open>Classifier\<close> are arguments: their classes are
  not part of \<^verbatim>\<open>gpt.py\<close>. Of the Decoder the program uses one attribute, the output
  projection \<^verbatim>\<open>linear\<close>, whose parameters are therefore named \<^verbatim>\<open>decoder.linear.*\<close>.
\<close>

definition GPTModel_init :: "module \<Rightarrow> module \<Rightarrow> module" where
  "GPTModel_init embedding_layer decoder =
     add_module ''embedding_layer'' embedding_layer @ add_module ''decoder'' decoder"

definition GPTFineTune_init :: "module \<Rightarrow> module \<Rightarrow> module \<Rightarrow> module" where
  "GPTFineTune_init embedding_layer decoder classifier =
     add_module ''pretrained_model'' (GPTModel_init embedding_layer decoder)
     @ add_module ''classifier'' classifier"

section \<open>Optimizers, checkpoints and the environment\<close>

text \<open>
  An optimizer is an instance of a \<^verbatim>\<open>torch.optim\<close> class over a list of parameters, with
  its hyperparameters (the learning rate) and its per-parameter state (for Adam the step
  count and the two moment estimates, of the abstract type \<open>'o\<close>), keyed by the position of
  the parameter. Its \<^verbatim>\<open>state_dict()\<close> holds the state, the hyperparameters and the
  parameter positions; \<^verbatim>\<open>load_state_dict\<close> raises \<^verbatim>\<open>ValueError\<close> when the number of
  parameters differs.
\<close>

datatype optimizer_class = Adam | AdamW | SGD | RMSprop | Adagrad

record 'o optimizer_sd =
  sd_state :: "(nat \<times> 'o) list"
  sd_lr :: real
  sd_num_params :: nat

record 'o optimizer =
  opt_class :: optimizer_class
  opt_params :: "string list"
  opt_lr :: real
  opt_state :: "(nat \<times> 'o) list"

definition new_optimizer :: "optimizer_class \<Rightarrow> string list \<Rightarrow> real \<Rightarrow> error + 'o optimizer" where
  "new_optimizer cls params lr =
     (if params = [] then Inl ValueError
      else Inr \<lparr>opt_class = cls, opt_params = params, opt_lr = lr, opt_state = []\<rparr>)"

definition optim_state_dict :: "'o optimizer \<Rightarrow> 'o optimizer_sd" where
  "optim_state_dict opt =
     \<lparr>sd_state = opt_state opt, sd_lr = opt_lr opt, sd_num_params = length (opt_params opt)\<rparr>"

definition optim_load_state_dict :: "'o optimizer \<Rightarrow> 'o optimizer_sd \<Rightarrow> error + 'o optimizer" where
  "optim_load_state_dict opt sd =
     (if sd_num_params sd \<noteq> length (opt_params opt) then Inl ValueError
      else Inr (opt\<lparr>opt_state := sd_state sd, opt_lr := sd_lr sd\<rparr>))"

text \<open>The dictionary that both trainers write with \<^verbatim>\<open>torch.save\<close>.\<close>

record 'o checkpoint_data =
  model_state_dict :: state_dict
  optimizer_state_dict :: "'o optimizer_sd"
  epoch :: int

text \<open>What the program prints, one constructor for each \<^verbatim>\<open>print\<close> and for \<^verbatim>\<open>summary\<close>.\<close>

datatype stdout_line =
  Model_Saved_at string
  | Model_is_saved_at string
  | Checkpoint_not_found
  | Loaded_Pretrained_Model
  | Summary
  | Pretrain_Progress int int real real
  | Progress int int real

text \<open>
  The environment: the checkpoint files on disk, the paths that cannot be written with
  the error the write raises there (an empty file name, a missing parent directory, a
  missing permission), and the standard output. Only files written by \<^verbatim>\<open>torch.save\<close>
  are modelled. \<^verbatim>\<open>torch.save\<close> raises on a path that cannot be written and creates or
  replaces the file otherwise. \<^verbatim>\<open>torch.load\<close> of a path without file raises
  \<^verbatim>\<open>FileNotFoundError\<close>; \<^verbatim>\<open>torch.load(None)\<close> raises \<^verbatim>\<open>AttributeError\<close> (None is
  neither a path nor a readable file object).
\<close>

record 'o world =
  files :: "string \<Rightarrow> 'o checkpoint_data option"
  write_error :: "string \<Rightarrow> error option"
  stdout :: "stdout_line list"

definition print :: "stdout_line \<Rightarrow> 'o world \<Rightarrow> 'o world" where
  "print line w = w\<lparr>stdout := stdout w @ [line]\<rparr>"

definition torch_save :: "'o world \<Rightarrow> 'o checkpoint_data \<Rightarrow> string \<Rightarrow> error + 'o world" where
  "torch_save w obj f =
     (case write_error w f of
        Some e \<Rightarrow> Inl e
      | None \<Rightarrow> Inr (w\<lparr>files := (files w)(f \<mapsto> obj)\<rparr>))"

definition torch_load :: "'o world \<Rightarrow> string option \<Rightarrow> error + 'o checkpoint_data" where
  "torch_load w f =
     (case f of None \<Rightarrow> Inl AttributeError
      | Some path \<Rightarrow> (case files w path of None \<Rightarrow> Inl FileNotFoundError | Some obj \<Rightarrow> Inr obj))"

definition os_path_exists :: "'o world \<Rightarrow> string \<Rightarrow> bool" where
  "os_path_exists w path = (files w path \<noteq> None)"

section \<open>The numeric backend\<close>

text \<open>
  What \<^verbatim>\<open>gpt.py\<close> calls and does not define: the mask routine
  (\<^verbatim>\<open>model.utils.mask.generate_mask\<close>), the forward passes of \<^verbatim>\<open>nn.Embedding\<close>, of the
  \<^verbatim>\<open>Decoder\<close> and of the \<^verbatim>\<open>Classifier\<close>, the loss \<^verbatim>\<open>nn.CrossEntropyLoss\<close>, the
  \<^verbatim>\<open>Perplexity\<close> helper, automatic differentiation with the optimizer step
  (\<^verbatim>\<open>loss.backward(); optimizer.step()\<close>, a function of the parameters, the optimizer and
  the batch the loss was computed on) and the random order a shuffling \<^verbatim>\<open>DataLoader\<close>
  draws for each pass. They are parameters of the model; a forward pass or a loss may
  raise. The masks have the abstract type \<open>'k\<close>, embedded sequences the type \<open>'h\<close>.
\<close>

record ('k, 'h, 'o) backend =
  generate_mask :: "batch \<Rightarrow> 'k \<times> 'k"
  embedding_forward :: "module \<Rightarrow> batch \<Rightarrow> error + 'h"
  decoder_forward :: "module \<Rightarrow> 'h \<Rightarrow> 'k \<Rightarrow> bool \<Rightarrow> error + logits"
  classifier_forward :: "module \<Rightarrow> logits \<Rightarrow> error + logits"
  criterion :: "real list list \<Rightarrow> int list \<Rightarrow> error + real"
  perplexity_loss :: "real \<Rightarrow> real"
  backward_step :: "module \<Rightarrow> 'o optimizer \<Rightarrow> batch \<Rightarrow> batch \<Rightarrow> module \<times> 'o optimizer"
  randperm :: "nat \<Rightarrow> nat \<Rightarrow> nat list"

text \<open>\<^verbatim>\<open>GPTModel.forward\<close> and \<^verbatim>\<open>GPTFineTune.forward\<close>.\<close>

definition GPTModel_forward ::
  "('k, 'h, 'o) backend \<Rightarrow> module \<Rightarrow> batch \<Rightarrow> 'k \<Rightarrow> bool \<Rightarrow> error + logits" where
  "GPTModel_forward be m x look_ahead_mask train =
     (case embedding_forward be (submodule ''embedding_layer.'' m) x of
        Inl e \<Rightarrow> Inl e
      | Inr h \<Rightarrow> decoder_forward be (submodule ''decoder.'' m) h look_ahead_mask train)"

definition GPTFineTune_forward ::
  "('k, 'h, 'o) backend \<Rightarrow> module \<Rightarrow> batch \<Rightarrow> 'k \<Rightarrow> bool \<Rightarrow> error + logits" where
  "GPTFineTune_forward be m x look_ahead_mask train =
     (case GPTModel_forward be (submodule ''pretrained_model.'' m) x look_ahead_mask train of
        Inl e \<Rightarrow> Inl e
      | Inr y \<Rightarrow> classifier_forward be (submodule ''classifier.'' m) y)"

text \<open>
  \<^verbatim>\<open>cross_entropy_loss\<close> of GPTPretrain and \<^verbatim>\<open>loss_function\<close> of GPT have the same body:
  the sum of \<^verbatim>\<open>criterion(outputs[batch], labels[batch])\<close> over
  \<^verbatim>\<open>range(labels.size(0))\<close>, divided by that size. Reading \<^verbatim>\<open>outputs[batch]\<close> past the
  end raises \<^verbatim>\<open>IndexError\<close>; for an empty batch the sum is the float 0.0 and the
  division raises \<^verbatim>\<open>ZeroDivisionError\<close>.
\<close>

fun loss_loop ::
  "('k, 'h, 'o) backend \<Rightarrow> logits \<Rightarrow> batch \<Rightarrow> real \<Rightarrow> error + real" where
  "loss_loop be outputs [] loss = Inr loss"
| "loss_loop be [] (l # ls) loss = Inl IndexError"
| "loss_loop be (out # outs) (l # ls) loss =
     (case criterion be out l of Inl e \<Rightarrow> Inl e | Inr c \<Rightarrow> loss_loop be outs ls (loss + c))"

definition cross_entropy_loss ::
  "('k, 'h, 'o) backend \<Rightarrow> logits \<Rightarrow> batch \<Rightarrow> error + real" where
  "cross_entropy_loss be outputs labels =
     (case loss_loop be outputs labels 0 of
        Inl e \<Rightarrow> Inl e
      | Inr loss \<Rightarrow> if length labels = 0 then Inl ZeroDivisionError
                    else Inr (loss / real (length labels)))"

definition loss_function ::
  "('k, 'h, 'o) backend \<Rightarrow> logits \<Rightarrow> batch \<Rightarrow> error + real" where
  "loss_function be outputs labels =
     (case loss_loop be outputs labels 0 of
        Inl e \<Rightarrow> Inl e
      | Inr loss \<Rightarrow> if length labels = 0 then Inl ZeroDivisionError
                    else Inr (loss / real (length labels)))"

section \<open>Data loaders\<close>

text \<open>
  \<^verbatim>\<open>DataLoader(dataset, batch_size, shuffle)\<close>: the constructor raises \<^verbatim>\<open>ValueError\<close>
  for a batch size that is not positive; \<^verbatim>\<open>len\<close> is the number of batches (the last one
  may be short); one pass yields the rows in batches, in the order drawn for that pass
  when shuffling.
\<close>

record 'r DataLoader =
  dl_dataset :: "'r list"
  dl_batch_size :: int
  dl_shuffle :: bool

definition new_DataLoader :: "'r list \<Rightarrow> int \<Rightarrow> bool \<Rightarrow> error + 'r DataLoader" where
  "new_DataLoader rows bsize shuf =
     (if bsize \<le> 0 then Inl ValueError
      else Inr \<lparr>dl_dataset = rows, dl_batch_size = bsize, dl_shuffle = shuf\<rparr>)"

definition len_DataLoader :: "'r DataLoader \<Rightarrow> int" where
  "len_DataLoader dl =
     (int (length (dl_dataset dl)) + dl_batch_size dl - 1) div dl_batch_size dl"

function chunks :: "nat \<Rightarrow> 'a list \<Rightarrow> 'a list list" where
  "chunks n xs = (if n = 0 \<or> xs = [] then [] else take n xs # chunks n (drop n xs))"
  by pat_completeness auto
termination
  by (relation "measure (\<lambda>(n, xs). length xs)") auto

definition iter_DataLoader ::
  "('k, 'h, 'o) backend \<Rightarrow> nat \<Rightarrow> 'r DataLoader \<Rightarrow> 'r list list" where
  "iter_DataLoader be pass dl =
     chunks (nat (dl_batch_size dl))
       (if dl_shuffle dl
        then map (\<lambda>i. dl_dataset dl ! i)
               (filter (\<lambda>i. i < length (dl_dataset dl))
                  (randperm be pass (length (dl_dataset dl))))
        else dl_dataset dl)"

text \<open>\<^verbatim>\<open>enumerate(xs, start)\<close> with Python's integer indices.\<close>

fun py_enumerate :: "int \<Rightarrow> 'a list \<Rightarrow> (int \<times> 'a) list" where
  "py_enumerate i [] = []"
| "py_enumerate i (x # xs) = (i, x) # py_enumerate (i + 1) xs"

section \<open>GPTPretrain\<close>

record 'o GPTPretrain =
  model :: module
  embedding_dim :: int
  checkpoint :: "string option"
  optimizer :: "'o optimizer"
  entropy_loss :: real
  perplexity :: real
  epoch :: int



definition GPTPretrain__save_model ::
  "'o world \<Rightarrow> 'o GPTPretrain \<Rightarrow> string \<Rightarrow> error + 'o world \<times> 'o GPTPretrain" where
  "GPTPretrain__save_model w s path =
     (case torch_save w
             \<lparr>model_state_dict = module_state_dict (GPTPretrain.model s),
              optimizer_state_dict = optim_state_dict (GPTPretrain.optimizer s),
              epoch = GPTPretrain.epoch s\<rparr> path of
        Inl e \<Rightarrow> Inl e
      | Inr w1 \<Rightarrow> Inr (print (Model_Saved_at path) w1, s))"

definition GPTPretrain__load_model ::
  "'o world \<Rightarrow> 'o GPTPretrain \<Rightarrow> string \<Rightarrow> error + 'o world \<times> 'o GPTPretrain" where
  "GPTPretrain__load_model w s path =
     (if os_path_exists w path then
        (case torch_load w (Some path) of
           Inl e \<Rightarrow> Inl e
         | Inr checkpoint_data \<Rightarrow>
            (case load_state_dict [] (GPTPretrain.model s) (model_state_dict checkpoint_data) of
               Inl e \<Rightarrow> Inl e
             | Inr m \<Rightarrow>
                (case optim_load_state_dict (GPTPretrain.optimizer s)
                        (optimizer_state_dict checkpoint_data) of
                   Inl e \<Rightarrow> Inl e
                 | Inr opt \<Rightarrow>
                    Inr (w, s\<lparr>GPTPretrain.model := m, GPTPretrain.optimizer := opt,
                              GPTPretrain.epoch := checkpoint_data.epoch checkpoint_data\<rparr>))))
      else Inr (w, s))"

definition GPTPretrain_save_model ::
  "'o world \<Rightarrow> 'o GPTPretrain \<Rightarrow> string option \<Rightarrow> error + 'o world \<times> 'o GPTPretrain" where
  "GPTPretrain_save_model w s path =
     (case path of
        Some p \<Rightarrow>
          (case GPTPretrain__save_model w s p of
             Inl e \<Rightarrow> Inl e
           | Inr (w', s') \<Rightarrow> Inr (w', s'\<lparr>GPTPretrain.checkpoint := Some p\<rparr>))
      | None \<Rightarrow>
          (case GPTPretrain.checkpoint s of
             Some c \<Rightarrow> GPTPretrain__save_model w s c
           | None \<Rightarrow> Inr (print Checkpoint_not_found w, s)))"

definition GPTPretrain_load_model ::
  "'o world \<Rightarrow> 'o GPTPretrain \<Rightarrow> string option \<Rightarrow> error + 'o world \<times> 'o GPTPretrain" where
  "GPTPretrain_load_model w s path =
     (case path of
        Some p \<Rightarrow>
          (case GPTPretrain__load_model w s p of
             Inl e \<Rightarrow> Inl e
           | Inr (w', s') \<Rightarrow> Inr (w', s'\<lparr>GPTPretrain.checkpoint := Some p\<rparr>))
      | None \<Rightarrow>
          (case GPTPretrain.checkpoint s of
             Some c \<Rightarrow> GPTPretrain__load_model w s c
           | None \<Rightarrow> Inr (print Checkpoint_not_found w, s)))"

text \<open>
  \<^verbatim>\<open>GPTPretrain.__init__\<close>. The optimizer is an instance of the class passed as
  \<^verbatim>\<open>optimizer\<close>, over \<^verbatim>\<open>self.model.parameters()\<close>; an optimizer over no parameter raises
  \<^verbatim>\<open>ValueError\<close>.
\<close>

definition GPTPretrain_init ::
  "'o world \<Rightarrow> module \<Rightarrow> module \<Rightarrow> int \<Rightarrow> real \<Rightarrow> optimizer_class \<Rightarrow> string option
     \<Rightarrow> error + 'o world \<times> 'o GPTPretrain" where
  "GPTPretrain_init w embedding_layer decoder emb_dim learning_rate optimizer_arg ckpt =
     (let m = GPTModel_init embedding_layer decoder in
      case new_optimizer optimizer_arg (parameters m) learning_rate of
        Inl e \<Rightarrow> Inl e
      | Inr opt \<Rightarrow>
         (let s = \<lparr>GPTPretrain.model = m, embedding_dim = emb_dim,
                    GPTPretrain.checkpoint = ckpt, GPTPretrain.optimizer = opt,
                    GPTPretrain.entropy_loss = 0, perplexity = 0, GPTPretrain.epoch = 0\<rparr>
          in case ckpt of None \<Rightarrow> Inr (w, s) | Some c \<Rightarrow> GPTPretrain_load_model w s (Some c)))"

text \<open>The slices \<^verbatim>\<open>data[:, :-1]\<close> and \<^verbatim>\<open>data[:, 1:]\<close> of a tensor of shape (B, L).\<close>

definition pretrain_inputs :: "batch \<Rightarrow> batch" where
  "pretrain_inputs rows = map butlast rows"

definition pretrain_labels :: "batch \<Rightarrow> batch" where
  "pretrain_labels rows = map tl rows"

definition GPTPretrain_pretrain_step ::
  "('k, 'h, 'o) backend \<Rightarrow> 'o GPTPretrain \<Rightarrow> batch \<Rightarrow> error + 'o GPTPretrain" where
  "GPTPretrain_pretrain_step be s rows =
     (let inputs = pretrain_inputs rows;
          labels = pretrain_labels rows;
          look_ahead_mask = snd (generate_mask be inputs)
      in case GPTModel_forward be (GPTPretrain.model s) inputs look_ahead_mask True of
           Inl e \<Rightarrow> Inl e
         | Inr outputs \<Rightarrow>
            (case cross_entropy_loss be outputs labels of
               Inl e \<Rightarrow> Inl e
             | Inr loss \<Rightarrow>
                (case backward_step be (GPTPretrain.model s) (GPTPretrain.optimizer s)
                        inputs labels of
                   (m, opt) \<Rightarrow>
                     Inr (s\<lparr>GPTPretrain.model := m, GPTPretrain.optimizer := opt,
                            GPTPretrain.entropy_loss := GPTPretrain.entropy_loss s + loss,
                            perplexity := perplexity s + perplexity_loss be loss\<rparr>))))"





section \<open>GPT\<close>

record 'o GPT =
  model :: module
  optimizer :: "'o optimizer"
  epoch :: int
  checkpoint :: "string option"
  entropy_loss :: real
  training :: bool

text \<open>
  \<^verbatim>\<open>GPT.__load_model\<close>: for an existing file, the full checkpoint is loaded, every
  parameter of \<^verbatim>\<open>self.model.pretrained_model\<close> gets \<^verbatim>\<open>requires_grad = False\<close>, then
  \<^verbatim>\<open>pretrained_model.decoder.linear.requires_grad_(True)\<close>, and \<^verbatim>\<open>self.training = True\<close>.
\<close>

definition GPT__load_model ::
  "'o world \<Rightarrow> 'o GPT \<Rightarrow> string \<Rightarrow> error + 'o world \<times> 'o GPT" where
  "GPT__load_model w s path =
     (if os_path_exists w path then
        (case torch_load w (Some path) of
           Inl e \<Rightarrow> Inl e
         | Inr checkpoint_data \<Rightarrow>
            (case load_state_dict [] (GPT.model s) (model_state_dict checkpoint_data) of
               Inl e \<Rightarrow> Inl e
             | Inr m \<Rightarrow>
                (case optim_load_state_dict (GPT.optimizer s)
                        (optimizer_state_dict checkpoint_data) of
                   Inl e \<Rightarrow> Inl e
                 | Inr opt \<Rightarrow>
                    Inr (w, s\<lparr>GPT.model :=
                                 set_requires_grad ''pretrained_model.decoder.linear.'' True
                                   (set_requires_grad ''pretrained_model.'' False m),
                              GPT.optimizer := opt,
                              GPT.epoch := checkpoint_data.epoch checkpoint_data,
                              training := True\<rparr>))))
      else Inr (w, s))"

definition GPT_load_model ::
  "'o world \<Rightarrow> 'o GPT \<Rightarrow> string option \<Rightarrow> error + 'o world \<times> 'o GPT" where
  "GPT_load_model w s path =
     (case (path, GPT.checkpoint s) of
        (None, Some c) \<Rightarrow> GPT__load_model w s c
      | (Some p, _) \<Rightarrow>
          (case GPT__load_model w s p of
             Inl e \<Rightarrow> Inl e
           | Inr (w', s') \<Rightarrow> Inr (w', s'\<lparr>GPT.checkpoint := Some p\<rparr>))
      | (None, None) \<Rightarrow> Inr (w, s))"

definition GPT__save_model ::
  "'o world \<Rightarrow> 'o GPT \<Rightarrow> string \<Rightarrow> error + 'o world \<times> 'o GPT" where
  "GPT__save_model w s path =
     (case torch_save w
             \<lparr>model_state_dict = module_state_dict (GPT.model s),
              optimizer_state_dict = optim_state_dict (GPT.optimizer s),
              epoch = GPT.epoch s\<rparr> path of
        Inl e \<Rightarrow> Inl e
      | Inr w1 \<Rightarrow> Inr (print (Model_is_saved_at path) w1, s))"

definition GPT_save_model ::
  "'o world \<Rightarrow> 'o GPT \<Rightarrow> string option \<Rightarrow> error + 'o world \<times> 'o GPT" where
  "GPT_save_model w s path =
     (case (path, GPT.checkpoint s) of
        (None, Some c) \<Rightarrow> GPT__save_model w s c
      | (Some p, _) \<Rightarrow>
          (case GPT__save_model w s p of
             Inl e \<Rightarrow> Inl e
           | Inr (w', s') \<Rightarrow> Inr (w', s'\<lparr>GPT.checkpoint := Some p\<rparr>))
      | (None, None) \<Rightarrow> Inr (w, s))"

text \<open>
  \<^verbatim>\<open>GPT.load_pretrained_model\<close>: \<^verbatim>\<open>torch.load(path)\<close> with no test that the file
  exists, the backbone's \<^verbatim>\<open>load_state_dict\<close>, the same two freeze statements, and a
  print. \<^verbatim>\<open>fit\<close> passes its \<^verbatim>\<open>pretrained_path\<close>, which defaults to None.
\<close>

definition GPT_load_pretrained_model ::
  "'o world \<Rightarrow> 'o GPT \<Rightarrow> string option \<Rightarrow> error + 'o world \<times> 'o GPT" where
  "GPT_load_pretrained_model w s path =
     (case torch_load w path of
        Inl e \<Rightarrow> Inl e
      | Inr checkpoint_data \<Rightarrow>
         (case load_state_dict ''pretrained_model.'' (GPT.model s)
                 (model_state_dict checkpoint_data) of
            Inl e \<Rightarrow> Inl e
          | Inr m \<Rightarrow>
             Inr (print Loaded_Pretrained_Model w,
                  s\<lparr>GPT.model :=
                      set_requires_grad ''pretrained_model.decoder.linear.'' True
                        (set_requires_grad ''pretrained_model.'' False m)\<rparr>)))"

text \<open>
  \<^verbatim>\<open>GPT.__init__\<close>: the optimizer is \<^verbatim>\<open>optim.Adam(params=self.model.parameters(),
  lr=learning_rate)\<close>; the argument \<^verbatim>\<open>optimizer\<close> is not read.
\<close>

definition GPT_init ::
  "'o world \<Rightarrow> module \<Rightarrow> module \<Rightarrow> module \<Rightarrow> optimizer_class \<Rightarrow> real \<Rightarrow> string option
     \<Rightarrow> error + 'o world \<times> 'o GPT" where
  "GPT_init w embedding_layer decoder classifier optimizer_arg learning_rate ckpt =
     (let m = GPTFineTune_init embedding_layer decoder classifier in
      case new_optimizer Adam (parameters m) learning_rate of
        Inl e \<Rightarrow> Inl e
      | Inr opt \<Rightarrow>
         (let s = \<lparr>GPT.model = m, GPT.optimizer = opt, GPT.epoch = 0, GPT.checkpoint = ckpt,
                    GPT.entropy_loss = 0, training = False\<rparr>
          in case ckpt of None \<Rightarrow> Inr (w, s) | Some c \<Rightarrow> GPT_load_model w s (Some c)))"

text \<open>
  \<^verbatim>\<open>GPT.build_dataset\<close>: \<^verbatim>\<open>TensorDataset(inputs, labels)\<close> asserts that both tensors
  have the same number of rows; a batch of the loader is the pair of the stacked inputs
  and the stacked labels of its rows.
\<close>

definition GPT_build_dataset ::
  "batch \<Rightarrow> batch \<Rightarrow> int \<Rightarrow> bool \<Rightarrow> error + (tokens \<times> tokens) DataLoader" where
  "GPT_build_dataset inputs labels bsize shuf =
     (if length inputs \<noteq> length labels then Inl AssertionError
      else new_DataLoader (zip inputs labels) bsize shuf)"

definition GPT_train_step ::
  "('k, 'h, 'o) backend \<Rightarrow> 'o GPT \<Rightarrow> batch \<Rightarrow> batch \<Rightarrow> error + 'o GPT" where
  "GPT_train_step be s inputs labels =
     (let look_ahead_mask = snd (generate_mask be inputs)
      in case GPTFineTune_forward be (GPT.model s) inputs look_ahead_mask True of
           Inl e \<Rightarrow> Inl e
         | Inr outputs \<Rightarrow>
            (case loss_function be outputs labels of
               Inl e \<Rightarrow> Inl e
             | Inr loss \<Rightarrow>
                (case backward_step be (GPT.model s) (GPT.optimizer s) inputs labels of
                   (m, opt) \<Rightarrow>
                     Inr (s\<lparr>GPT.model := m, GPT.optimizer := opt,
                            GPT.entropy_loss := GPT.entropy_loss s + loss\<rparr>))))"

text \<open>\<^verbatim>\<open>GPT.sumary\<close>: reloads the configured checkpoint, then prints the summary.\<close>

definition GPT_sumary :: "'o world \<Rightarrow> 'o GPT \<Rightarrow> error + 'o world \<times> 'o GPT" where
  "GPT_sumary w s =
     (case (case GPT.checkpoint s of
              None \<Rightarrow> Inr (w, s)
            | Some c \<Rightarrow> GPT_load_model w s (Some c)) of
        Inl e \<Rightarrow> Inl e
      | Inr (w1, s1) \<Rightarrow> Inr (print Summary w1, s1))"

text \<open>The body of the loop over \<^verbatim>\<open>enumerate(dataloader, 0)\<close> in \<^verbatim>\<open>GPT.fit\<close>.\<close>

fun GPT_fit_body ::
  "('k, 'h, 'o) backend \<Rightarrow> int \<Rightarrow> int \<Rightarrow> 'o world \<times> 'o GPT
     \<Rightarrow> int \<times> (tokens \<times> tokens) list \<Rightarrow> error + 'o world \<times> 'o GPT" where
  "GPT_fit_body be mini_batch total_batch (w, s) (index, rows) =
     (case GPT_train_step be s (map fst rows) (map snd rows) of
        Inl e \<Rightarrow> Inl e
      | Inr s1 \<Rightarrow>
         (if mini_batch = 0 then Inl ZeroDivisionError
          else if index mod mini_batch = mini_batch - 1 \<or> index = total_batch - 1
          then Inr (print (Progress (GPT.epoch s1 + 1) (index + 1)
                             (GPT.entropy_loss s1 / real_of_int mini_batch)) w,
                    s1\<lparr>GPT.entropy_loss := 0\<rparr>)
          else Inr (w, s1)))"

fun GPT_fit_batches ::
  "('k, 'h, 'o) backend \<Rightarrow> int \<Rightarrow> int \<Rightarrow> 'o world \<times> 'o GPT
     \<Rightarrow> (int \<times> (tokens \<times> tokens) list) list \<Rightarrow> error + 'o world \<times> 'o GPT" where
  "GPT_fit_batches be mini_batch total_batch st [] = Inr st"
| "GPT_fit_batches be mini_batch total_batch st (item # rest) =
     (case GPT_fit_body be mini_batch total_batch st item of
        Inl e \<Rightarrow> Inl e
      | Inr st1 \<Rightarrow> GPT_fit_batches be mini_batch total_batch st1 rest)"

fun GPT_fit_epochs ::
  "('k, 'h, 'o) backend \<Rightarrow> int \<Rightarrow> (tokens \<times> tokens) DataLoader \<Rightarrow> nat \<Rightarrow> nat
     \<Rightarrow> 'o world \<times> 'o GPT \<Rightarrow> error + 'o world \<times> 'o GPT" where
  "GPT_fit_epochs be mini_batch dataloader 0 pass st = Inr st"
| "GPT_fit_epochs be mini_batch dataloader (Suc n) pass st =
     (case GPT_fit_batches be mini_batch (len_DataLoader dataloader) st
             (py_enumerate 0 (iter_DataLoader be pass dataloader)) of
        Inl e \<Rightarrow> Inl e
      | Inr (w1, s1) \<Rightarrow>
          GPT_fit_epochs be mini_batch dataloader n (Suc pass)
            (w1, s1\<lparr>GPT.epoch := GPT.epoch s1 + 1\<rparr>))"

definition GPT_fit ::
  "('k, 'h, 'o) backend \<Rightarrow> 'o world \<Rightarrow> 'o GPT \<Rightarrow> batch \<Rightarrow> batch \<Rightarrow> string option \<Rightarrow> int \<Rightarrow> int
     \<Rightarrow> int \<Rightarrow> bool \<Rightarrow> error + 'o world \<times> 'o GPT" where
  "GPT_fit be w s inputs labels pretrained_path bsize epochs mini_batch shuffle_data =
     (case (case GPT.checkpoint s of
              None \<Rightarrow> Inr (w, s)
            | Some c \<Rightarrow> GPT_load_model w s (Some c)) of
        Inl e \<Rightarrow> Inl e
      | Inr (w1, s1) \<Rightarrow>
         (case (if training s1 = False then GPT_load_pretrained_model w1 s1 pretrained_path
                else Inr (w1, s1)) of
            Inl e \<Rightarrow> Inl e
          | Inr (w2, s2) \<Rightarrow>
             (case GPT_sumary w2 s2 of
                Inl e \<Rightarrow> Inl e
              | Inr (w3, s3) \<Rightarrow>
                 (case GPT_build_dataset inputs labels bsize shuffle_data of
                    Inl e \<Rightarrow> Inl e
                  | Inr dataloader \<Rightarrow>
                     (case GPT_fit_epochs be mini_batch dataloader (nat epochs) 0 (w3, s3) of
                        Inl e \<Rightarrow> Inl e
                      | Inr (w4, s4) \<Rightarrow>
                         (case GPT.checkpoint s4 of
                            None \<Rightarrow> Inr (w4, s4)
                          | Some c \<Rightarrow> GPT__save_model w4 s4 c))))))"

text \<open>
  \<^verbatim>\<open>GPT.__predict_token\<close>: a forward pass in evaluation mode, the logits of the last
  position \<^verbatim>\<open>outputs[:, -1, :]\<close> (\<^verbatim>\<open>IndexError\<close> when there is no position), and the index
  of the maximum along the last dimension (\<^verbatim>\<open>torch.max\<close>: the first maximal entry;
  \<^verbatim>\<open>IndexError\<close> on an empty dimension). The result has one token per row of the batch.
\<close>

fun argmax_from :: "real \<Rightarrow> nat \<Rightarrow> nat \<Rightarrow> real list \<Rightarrow> nat" where
  "argmax_from best besti i [] = besti"
| "argmax_from best besti i (x # xs) =
     (if best < x then argmax_from x i (Suc i) xs else argmax_from best besti (Suc i) xs)"

definition torch_max_indices :: "real list list \<Rightarrow> error + int list" where
  "torch_max_indices rows =
     (if list_ex (\<lambda>r. r = []) rows then Inl IndexError
      else Inr (map (\<lambda>r. int (argmax_from (hd r) 0 1 (tl r))) rows))"

definition select_last :: "logits \<Rightarrow> error + real list list" where
  "select_last outputs =
     (if list_ex (\<lambda>positions. positions = []) outputs then Inl IndexError
      else Inr (map last outputs))"

definition GPT__predict_token ::
  "('k, 'h, 'o) backend \<Rightarrow> 'o GPT \<Rightarrow> batch \<Rightarrow> error + int list" where
  "GPT__predict_token be s input =
     (let look_ahead_mask = snd (generate_mask be input)
      in case GPTFineTune_forward be (GPT.model s) input look_ahead_mask False of
           Inl e \<Rightarrow> Inl e
         | Inr outputs \<Rightarrow>
            (case select_last outputs of
               Inl e \<Rightarrow> Inl e
             | Inr predict \<Rightarrow> torch_max_indices predict))"

text \<open>
  \<^verbatim>\<open>GPT.predict\<close>: the loop \<^verbatim>\<open>for _ in range(limit_tokens)\<close> on the running tensor.
  \<^verbatim>\<open>if token == end_token\<close> needs a token tensor of exactly one element, and
  \<^verbatim>\<open>torch.concat([data, token.unsqueeze(0)], dim=-1)\<close> a tensor of exactly one row: the
  prompt is a tensor of shape (1, P), and other shapes raise \<^verbatim>\<open>RuntimeError\<close>.
\<close>

fun GPT_predict_loop ::
  "('k, 'h, 'o) backend \<Rightarrow> 'o GPT \<Rightarrow> nat \<Rightarrow> int \<Rightarrow> batch \<Rightarrow> error + batch" where
  "GPT_predict_loop be s 0 end_token rows = Inr rows"
| "GPT_predict_loop be s (Suc n) end_token rows =
     (case GPT__predict_token be s rows of
        Inl e \<Rightarrow> Inl e
      | Inr [token] \<Rightarrow>
          (if token = end_token then Inr rows
           else (case rows of
                   [row] \<Rightarrow> GPT_predict_loop be s n end_token [row @ [token]]
                 | _ \<Rightarrow> Inl RuntimeError))
      | Inr _ \<Rightarrow> Inl RuntimeError)"

definition GPT_predict ::
  "('k, 'h, 'o) backend \<Rightarrow> 'o GPT \<Rightarrow> batch \<Rightarrow> int \<Rightarrow> int \<Rightarrow> error + batch" where
  "GPT_predict be s rows limit_tokens end_token =
     GPT_predict_loop be s (nat limit_tokens) end_token rows"

section \<open>Example instances\<close>

text \<open>
  A small backend on which the definitions can be evaluated: the decoder's logits at
  every position of a sequence of length \<open>P\<close> have their maximum at index \<open>P\<close>, so the
  greedy token after a prompt of length \<open>P\<close> is \<open>P\<close>; every loss is 1; the optimizer step
  leaves the parameters as they are.
\<close>

definition example_backend :: "(unit, batch, nat) backend" where
  "example_backend =
     \<lparr>generate_mask = (\<lambda>x. ((), ())),
      embedding_forward = (\<lambda>m x. Inr x),
      decoder_forward = (\<lambda>m h k t. Inr (map (\<lambda>row. map (\<lambda>_. replicate (length row) 0 @ [1]) row) h)),
      classifier_forward = (\<lambda>m y. Inr y),
      criterion = (\<lambda>out l. Inr 1),
      perplexity_loss = (\<lambda>x. x),
      backward_step = (\<lambda>m opt inputs labels. (m, opt)),
      randperm = (\<lambda>pass n. [0..<n])\<rparr>"

definition example_param :: "real \<Rightarrow> bool \<Rightarrow> parameter" where
  "example_param v g = \<lparr>param_data = \<lparr>shape = [1], elems = [v]\<rparr>, requires_grad = g\<rparr>"

definition example_model :: "real \<Rightarrow> module" where
  "example_model v =
     GPTFineTune_init [(''weight'', example_param v True)]
       [(''block.weight'', example_param v True), (''linear.weight'', example_param v True)]
       [(''weight'', example_param v True)]"

definition example_lm :: "real \<Rightarrow> module" where
  "example_lm v =
     GPTModel_init [(''weight'', example_param v True)]
       [(''block.weight'', example_param v True), (''linear.weight'', example_param v True)]"

definition example_optimizer :: "module \<Rightarrow> nat optimizer" where
  "example_optimizer m =
     \<lparr>opt_class = Adam, opt_params = parameters m, opt_lr = 1, opt_state = []\<rparr>"

definition example_gpt :: "real \<Rightarrow> nat GPT" where
  "example_gpt v =
     \<lparr>GPT.model = example_model v, GPT.optimizer = example_optimizer (example_model v),
      GPT.epoch = 0, GPT.checkpoint = None, GPT.entropy_loss = 0, training = False\<rparr>"

definition example_pretrain :: "real \<Rightarrow> nat GPTPretrain" where
  "example_pretrain v =
     \<lparr>GPTPretrain.model = example_lm v, embedding_dim = 1, GPTPretrain.checkpoint = None,
      GPTPretrain.optimizer = example_optimizer (example_lm v),
      GPTPretrain.entropy_loss = 0, perplexity = 0, GPTPretrain.epoch = 0\<rparr>"

text \<open>An environment without files, where every path but the empty one can be written.\<close>

definition empty_world :: "nat world" where
  "empty_world =
     \<lparr>files = Map.empty,
      write_error = (\<lambda>path. if path = [] then Some FileNotFoundError else None),
      stdout = []\<rparr>"

text \<open>
  An environment with two checkpoint files: \<^verbatim>\<open>pre.pt\<close>, saved by a pretraining
  trainer whose parameters all hold 5, and \<^verbatim>\<open>ft.pt\<close>, saved by a fine-tune trainer whose
  parameters all hold 7.
\<close>

definition example_world :: "nat world" where
  "example_world =
     (case GPTPretrain__save_model empty_world (example_pretrain 5) ''pre.pt'' of
        Inl e \<Rightarrow> empty_world
      | Inr (w1, s1) \<Rightarrow>
          (case GPT__save_model w1 (example_gpt 7) ''ft.pt'' of
             Inl e \<Rightarrow> w1
           | Inr (w2, s2) \<Rightarrow> w2))"

section \<open>Properties\<close>

subsection \<open>Pretraining inputs and labels\<close>

lemma shifted_row:
  assumes "length row = L" and "2 \<le> L"
  shows "length (butlast row) = L - 1 \<and> length (tl row) = L - 1 \<and>
         (\<forall>t<L - 1. butlast row ! t = row ! t \<and> tl row ! t = row ! (t + 1))"
  using assms by (auto simp: nth_butlast nth_tl)

text \<open>
  C3. For a batch whose rows all have length \<open>L \<ge> 2\<close>, the inputs and the labels of
  \<^verbatim>\<open>pretrain_step\<close> have one row per row of the batch, each of length \<open>L - 1\<close>; row \<open>b\<close>
  of the inputs holds positions \<open>0..L-2\<close> of row \<open>b\<close> of the batch and row \<open>b\<close> of the
  labels holds positions \<open>1..L-1\<close>, so \<open>labels[b][t] = data[b][t+1]\<close>. When the step
  succeeds, the forward pass has run on these inputs and the loss added to the running
  loss is the one computed against these labels.
\<close>

theorem pretrain_step_shifted_labels:
  assumes "2 \<le> L" and "\<forall>row\<in>set rows. length row = L"
  shows "length (pretrain_inputs rows) = length rows \<and>
         length (pretrain_labels rows) = length rows \<and>
         (\<forall>b<length rows.
            length (pretrain_inputs rows ! b) = L - 1 \<and>
            length (pretrain_labels rows ! b) = L - 1 \<and>
            (\<forall>t<L - 1. pretrain_inputs rows ! b ! t = rows ! b ! t \<and>
                        pretrain_labels rows ! b ! t = rows ! b ! (t + 1))) \<and>
         (\<forall>s'. GPTPretrain_pretrain_step be s rows = Inr s' \<longrightarrow>
            (\<exists>outputs loss.
               GPTModel_forward be (GPTPretrain.model s) (pretrain_inputs rows)
                 (snd (generate_mask be (pretrain_inputs rows))) True = Inr outputs \<and>
               cross_entropy_loss be outputs (pretrain_labels rows) = Inr loss \<and>
               GPTPretrain.entropy_loss s' = GPTPretrain.entropy_loss s + loss))"
proof -
  have rows: "\<And>b. b < length rows \<Longrightarrow> length (rows ! b) = L"
    using assms(2) by simp
  have shift: "\<forall>b<length rows.
            length (pretrain_inputs rows ! b) = L - 1 \<and>
            length (pretrain_labels rows ! b) = L - 1 \<and>
            (\<forall>t<L - 1. pretrain_inputs rows ! b ! t = rows ! b ! t \<and>
                        pretrain_labels rows ! b ! t = rows ! b ! (t + 1))"
    using shifted_row [OF rows assms(1)]
    by (simp add: pretrain_inputs_def pretrain_labels_def)
  have step: "\<forall>s'. GPTPretrain_pretrain_step be s rows = Inr s' \<longrightarrow>
            (\<exists>outputs loss.
               GPTModel_forward be (GPTPretrain.model s) (pretrain_inputs rows)
                 (snd (generate_mask be (pretrain_inputs rows))) True = Inr outputs \<and>
               cross_entropy_loss be outputs (pretrain_labels rows) = Inr loss \<and>
               GPTPretrain.entropy_loss s' = GPTPretrain.entropy_loss s + loss)"
    by (auto simp: GPTPretrain_pretrain_step_def Let_def split: sum.splits prod.splits)
  show ?thesis
    using shift step by (simp add: pretrain_inputs_def pretrain_labels_def)
qed

theorem pretrain_step_shifted_labels_witness:
  "(2::nat) \<le> 3 \<and> map length [[1, 2, 3], [4, 5, 6::int]] = [3, 3] \<and>
   length (pretrain_inputs [[1, 2, 3], [4, 5, 6]] ! 1) = 2 \<and>
   pretrain_inputs [[1, 2, 3], [4, 5, 6]] ! 1 ! 1 = 5 \<and>
   pretrain_labels [[1, 2, 3], [4, 5, 6]] ! 1 ! 1 = 6"
  using pretrain_step_shifted_labels
          [of 3 "[[1, 2, 3], [4, 5, 6]]" example_backend "example_pretrain 0"]
  by (simp add: pretrain_inputs_def pretrain_labels_def)

subsection \<open>Modules: loading values and setting gradient flags\<close>

lemma set_requires_grad_names: "map fst (set_requires_grad pre b m) = map fst m"
  by (induction m) (auto simp: set_requires_grad_def)

lemma load_state_dict_result:
  assumes "load_state_dict pre m sd = Inr m'"
  shows "m' = map (\<lambda>(n, p). if prefix pre n
                        then (case map_of sd (drop (length pre) n) of None \<Rightarrow> (n, p)
                              | Some t \<Rightarrow> (n, p\<lparr>param_data := t\<rparr>))
                        else (n, p)) m"
  using assms unfolding load_state_dict_def Let_def by (simp split: if_splits)

lemma load_state_dict_names:
  assumes "load_state_dict pre m sd = Inr m'"
  shows "map fst m' = map fst m"
  unfolding load_state_dict_result [OF assms]
  by (induction m) (auto split: option.splits)

lemma load_state_dict_flags:
  assumes "load_state_dict pre m sd = Inr m'"
  shows "map (\<lambda>(n, p). (n, requires_grad p)) m' = map (\<lambda>(n, p). (n, requires_grad p)) m"
  unfolding load_state_dict_result [OF assms]
  by (induction m) (auto split: option.splits)

lemma load_state_dict_outside:
  assumes "load_state_dict pre m sd = Inr m'"
  shows "filter (\<lambda>(n, p). \<not> prefix pre n) m' = filter (\<lambda>(n, p). \<not> prefix pre n) m"
  unfolding load_state_dict_result [OF assms]
  by (induction m) (auto split: option.splits)

lemma freeze_inside:
  "\<forall>(n, p)\<in>set (set_requires_grad (pre @ sub) True (set_requires_grad pre False m)).
     prefix pre n \<longrightarrow> requires_grad p = prefix (pre @ sub) n"
  by (induction m) (auto simp: set_requires_grad_def split: if_splits)

lemma set_requires_grad_outside:
  assumes "prefix pre pre'"
  shows "filter (\<lambda>(n, p). \<not> prefix pre n) (set_requires_grad pre' b m)
   = filter (\<lambda>(n, p). \<not> prefix pre n) m"
proof -
  have "\<And>n. prefix pre' n \<Longrightarrow> prefix pre n"
    using assms by (meson prefix_order.trans)
  then show ?thesis
    by (induction m) (auto simp: set_requires_grad_def split: if_splits)
qed

lemma freeze_outside:
  "filter (\<lambda>(n, p). \<not> prefix pre n) (set_requires_grad (pre @ sub) b (set_requires_grad pre c m))
   = filter (\<lambda>(n, p). \<not> prefix pre n) m"
  by (simp add: set_requires_grad_outside)


lemma load_pretrained_result:
  assumes "GPT_load_pretrained_model w s path = Inr (w', s')"
  shows "\<exists>ck m. torch_load w path = Inr ck \<and>
           load_state_dict ''pretrained_model.'' (GPT.model s) (model_state_dict ck) = Inr m \<and>
           w' = print Loaded_Pretrained_Model w \<and>
           s' = s\<lparr>GPT.model := set_requires_grad ''pretrained_model.decoder.linear.'' True
                                   (set_requires_grad ''pretrained_model.'' False m)\<rparr>"
  using assms by (auto simp: GPT_load_pretrained_model_def split: sum.splits)

lemma load_model_private_result:
  assumes "GPT__load_model w s p = Inr (w', s')" and "os_path_exists w p"
  shows "\<exists>ck m opt. torch_load w (Some p) = Inr ck \<and>
           load_state_dict [] (GPT.model s) (model_state_dict ck) = Inr m \<and>
           optim_load_state_dict (GPT.optimizer s) (optimizer_state_dict ck) = Inr opt \<and>
           w' = w \<and>
           s' = s\<lparr>GPT.model := set_requires_grad ''pretrained_model.decoder.linear.'' True
                                   (set_requires_grad ''pretrained_model.'' False m),
                    GPT.optimizer := opt, GPT.epoch := checkpoint_data.epoch ck,
                    training := True\<rparr>"
  using assms by (auto simp: GPT__load_model_def split: sum.splits)

lemma load_model_result:
  assumes "GPT_load_model w s path = Inr (w', s')"
    and "path = Some p \<or> (path = None \<and> GPT.checkpoint s = Some p)"
  shows "\<exists>s1. GPT__load_model w s p = Inr (w', s1) \<and>
           s' = s1\<lparr>GPT.checkpoint := (case path of None \<Rightarrow> GPT.checkpoint s1 | Some q \<Rightarrow> Some q)\<rparr>"
  using assms by (auto simp: GPT_load_model_def split: sum.splits option.splits)


lemma filter_flags:
  assumes "map (\<lambda>(n, p). (n, requires_grad p)) m' = map (\<lambda>(n, p). (n, requires_grad p)) m"
  shows "map (\<lambda>(n, p). (n, requires_grad p)) (filter (\<lambda>(n, p). Q n) m')
         = map (\<lambda>(n, p). (n, requires_grad p)) (filter (\<lambda>(n, p). Q n) m)"
  using assms
proof (induction m' arbitrary: m)
  case Nil
  then show ?case by simp
next
  case (Cons x m')
  then obtain y m0 where m: "m = y # m0" by (cases m) auto
  with Cons.prems have "fst x = fst y" "requires_grad (snd x) = requires_grad (snd y)"
    and rest: "map (\<lambda>(n, p). (n, requires_grad p)) m' = map (\<lambda>(n, p). (n, requires_grad p)) m0"
    by (auto simp: case_prod_unfold)
  with Cons.IH [OF rest] m show ?case
    by (auto simp: case_prod_unfold)
qed

subsection \<open>The freeze policy\<close>

text \<open>
  C1. When \<^verbatim>\<open>GPT.load_pretrained_model\<close> returns, and when \<^verbatim>\<open>GPT.load_model\<close> returns
  after loading an existing checkpoint file (the path given, or the configured one when
  none is given), every parameter of the backbone \<^verbatim>\<open>pretrained_model\<close> has
  \<^verbatim>\<open>requires_grad\<close> true exactly when it belongs to \<^verbatim>\<open>pretrained_model.decoder.linear\<close>.
  The parameters outside the backbone (the classifier head) are unchanged by
  \<^verbatim>\<open>load_pretrained_model\<close>, and keep their gradient flags under \<^verbatim>\<open>load_model\<close>, which
  loads their values from the checkpoint.
\<close>

theorem freeze_policy_after_load:
  "(\<forall>w' s'. GPT_load_pretrained_model w s path = Inr (w', s') \<longrightarrow>
      (\<forall>(n, p)\<in>set (GPT.model s'). prefix ''pretrained_model.'' n \<longrightarrow>
          requires_grad p = prefix ''pretrained_model.decoder.linear.'' n) \<and>
      filter (\<lambda>(n, p). \<not> prefix ''pretrained_model.'' n) (GPT.model s')
        = filter (\<lambda>(n, p). \<not> prefix ''pretrained_model.'' n) (GPT.model s)) \<and>
   (\<forall>fpath w' s'.
      (path' = Some fpath \<or> path' = None \<and> GPT.checkpoint s = Some fpath) \<and>
      os_path_exists w fpath \<and> GPT_load_model w s path' = Inr (w', s') \<longrightarrow>
      (\<forall>(n, p)\<in>set (GPT.model s'). prefix ''pretrained_model.'' n \<longrightarrow>
          requires_grad p = prefix ''pretrained_model.decoder.linear.'' n) \<and>
      map (\<lambda>(n, p). (n, requires_grad p))
          (filter (\<lambda>(n, p). \<not> prefix ''pretrained_model.'' n) (GPT.model s'))
        = map (\<lambda>(n, p). (n, requires_grad p))
            (filter (\<lambda>(n, p). \<not> prefix ''pretrained_model.'' n) (GPT.model s)))"
proof (intro conjI allI impI)
  fix w' s'
  assume "GPT_load_pretrained_model w s path = Inr (w', s')"
  from load_pretrained_result [OF this] obtain ck m where
    "torch_load w path = Inr ck" and
    m: "load_state_dict ''pretrained_model.'' (GPT.model s) (model_state_dict ck) = Inr m"
    and raw: "s' = s\<lparr>GPT.model := set_requires_grad ''pretrained_model.decoder.linear.'' True
                             (set_requires_grad ''pretrained_model.'' False m)\<rparr>"
    by blast
  have s': "GPT.model s' = set_requires_grad (''pretrained_model.'' @ ''decoder.linear.'') True
                             (set_requires_grad ''pretrained_model.'' False m)"
    by (simp add: raw)
  show "\<forall>(n, p)\<in>set (GPT.model s'). prefix ''pretrained_model.'' n \<longrightarrow>
          requires_grad p = prefix ''pretrained_model.decoder.linear.'' n"
    unfolding s' using freeze_inside [of "''pretrained_model.''" "''decoder.linear.''" m]
    by simp
  show "filter (\<lambda>(n, p). \<not> prefix ''pretrained_model.'' n) (GPT.model s')
        = filter (\<lambda>(n, p). \<not> prefix ''pretrained_model.'' n) (GPT.model s)"
    unfolding s' freeze_outside using load_state_dict_outside [OF m] .
next
  fix fpath w' s'
  assume a: "(path' = Some fpath \<or> path' = None \<and> GPT.checkpoint s = Some fpath) \<and>
      os_path_exists w fpath \<and> GPT_load_model w s path' = Inr (w', s')"
  then obtain s1 where s1: "GPT__load_model w s fpath = Inr (w', s1)"
    and s1': "GPT.model s' = GPT.model s1"
    using load_model_result [of w s path' w' s' fpath] by auto
  from load_model_private_result [OF s1] a obtain ck m opt where
    "torch_load w (Some fpath) = Inr ck" and
    m: "load_state_dict [] (GPT.model s) (model_state_dict ck) = Inr m"
    and raw: "s1 = s\<lparr>GPT.model := set_requires_grad ''pretrained_model.decoder.linear.'' True
                                   (set_requires_grad ''pretrained_model.'' False m),
                    GPT.optimizer := opt, GPT.epoch := checkpoint_data.epoch ck,
                    training := True\<rparr>"
    by blast
  have s': "GPT.model s' = set_requires_grad (''pretrained_model.'' @ ''decoder.linear.'') True
                             (set_requires_grad ''pretrained_model.'' False m)"
    by (simp add: s1' raw)
  show "\<forall>(n, p)\<in>set (GPT.model s'). prefix ''pretrained_model.'' n \<longrightarrow>
          requires_grad p = prefix ''pretrained_model.decoder.linear.'' n"
    unfolding s' using freeze_inside [of "''pretrained_model.''" "''decoder.linear.''" m]
    by simp
  have "map (\<lambda>(n, p). (n, requires_grad p)) (filter (\<lambda>(n, p). \<not> prefix ''pretrained_model.'' n) m)
        = map (\<lambda>(n, p). (n, requires_grad p))
            (filter (\<lambda>(n, p). \<not> prefix ''pretrained_model.'' n) (GPT.model s))"
    using load_state_dict_flags [OF m] by (rule filter_flags)
  then show "map (\<lambda>(n, p). (n, requires_grad p))
          (filter (\<lambda>(n, p). \<not> prefix ''pretrained_model.'' n) (GPT.model s'))
        = map (\<lambda>(n, p). (n, requires_grad p))
            (filter (\<lambda>(n, p). \<not> prefix ''pretrained_model.'' n) (GPT.model s))"
    unfolding s' freeze_outside .
qed

theorem freeze_policy_after_load_witness:
  "(case GPT_load_pretrained_model example_world (example_gpt 0) (Some ''pre.pt'') of
      Inr (w', s') \<Rightarrow> map (\<lambda>(n, p). (n, requires_grad p)) (GPT.model s') | Inl e \<Rightarrow> [])
    = [(''pretrained_model.embedding_layer.weight'', False),
       (''pretrained_model.decoder.block.weight'', False),
       (''pretrained_model.decoder.linear.weight'', True),
       (''classifier.weight'', True)] \<and>
   os_path_exists example_world ''ft.pt'' \<and>
   (case GPT_load_model example_world (example_gpt 0) (Some ''ft.pt'') of
      Inr (w', s') \<Rightarrow> map (\<lambda>(n, p). (n, requires_grad p)) (GPT.model s') | Inl e \<Rightarrow> [])
    = [(''pretrained_model.embedding_layer.weight'', False),
       (''pretrained_model.decoder.block.weight'', False),
       (''pretrained_model.decoder.linear.weight'', True),
       (''classifier.weight'', True)]"
proof -
  have ev: "(case GPT_load_pretrained_model example_world (example_gpt 0) (Some ''pre.pt'') of
      Inr (w', s') \<Rightarrow> map (\<lambda>(n, p). (n, requires_grad p)) (GPT.model s') | Inl e \<Rightarrow> [])
    = [(''pretrained_model.embedding_layer.weight'', False),
       (''pretrained_model.decoder.block.weight'', False),
       (''pretrained_model.decoder.linear.weight'', True),
       (''classifier.weight'', True)] \<and>
   os_path_exists example_world ''ft.pt'' \<and>
   (case GPT_load_model example_world (example_gpt 0) (Some ''ft.pt'') of
      Inr (w', s') \<Rightarrow> map (\<lambda>(n, p). (n, requires_grad p)) (GPT.model s') | Inl e \<Rightarrow> [])
    = [(''pretrained_model.embedding_layer.weight'', False),
       (''pretrained_model.decoder.block.weight'', False),
       (''pretrained_model.decoder.linear.weight'', True),
       (''classifier.weight'', True)]"
    by code_simp
  show ?thesis
    using freeze_policy_after_load
            [of example_world "example_gpt 0" "Some ''pre.pt''" "Some ''ft.pt''"] ev
    by blast
qed

subsection \<open>Greedy decoding\<close>

lemma predict_loop_Suc:
  "GPT_predict_loop be s (Suc n) end_token [row] = Inr r \<Longrightarrow>
   (GPT__predict_token be s [row] = Inr [end_token] \<and> r = [row]) \<or>
   (\<exists>t. t \<noteq> end_token \<and> GPT__predict_token be s [row] = Inr [t] \<and>
        GPT_predict_loop be s n end_token [row @ [t]] = Inr r)"
  by (simp split: sum.splits list.splits if_splits)

lemma predict_loop_end:
  "GPT__predict_token be s [row] = Inr [end_token] \<Longrightarrow>
   GPT_predict_loop be s (Suc n) end_token [row] = Inr [row]"
  by simp

lemma predict_loop_step:
  "GPT__predict_token be s [row] = Inr [t] \<Longrightarrow> t \<noteq> end_token \<Longrightarrow>
   GPT_predict_loop be s (Suc n) end_token [row]
     = GPT_predict_loop be s n end_token [row @ [t]]"
  by simp

lemma predict_loop_extends:
  "GPT_predict_loop be s n end_token [row] = Inr r \<Longrightarrow>
   \<exists>toks. r = [row @ toks] \<and> length toks \<le> n"
proof (induction n arbitrary: row)
  case 0
  then show ?case by simp
next
  case (Suc n)
  from predict_loop_Suc [OF Suc.prems] show ?case
  proof (elim disjE conjE exE)
    assume "r = [row]"
    then have "r = [row @ []] \<and> length ([]::int list) \<le> Suc n" by simp
    then show ?thesis by (rule exI)
  next
    fix t
    assume "GPT_predict_loop be s n end_token [row @ [t]] = Inr r"
    from Suc.IH [OF this] obtain toks where "r = [(row @ [t]) @ toks]" "length toks \<le> n"
      by (elim exE conjE)
    then have "r = [row @ (t # toks)] \<and> length (t # toks) \<le> Suc n" by simp
    then show ?thesis by (rule exI)
  qed
qed

lemma predict_loop_returns:
  assumes "\<forall>rows. \<exists>t. GPT__predict_token be s rows = Inr [t]"
  shows "\<exists>r. GPT_predict_loop be s n end_token [row] = Inr r"
proof (induction n arbitrary: row)
  case 0
  show ?case by simp
next
  case (Suc n)
  from assms obtain t where t: "GPT__predict_token be s [row] = Inr [t]" by blast
  show ?case
  proof (cases "t = end_token")
    case True
    with t have "GPT_predict_loop be s (Suc n) end_token [row] = Inr [row]"
      by (intro predict_loop_end) simp
    then show ?thesis by (rule exI)
  next
    case False
    with t have step: "GPT_predict_loop be s (Suc n) end_token [row]
                       = GPT_predict_loop be s n end_token [row @ [t]]"
      by (rule predict_loop_step)
    show ?thesis unfolding step by (rule Suc.IH)
  qed
qed

lemma predict_loop_stops:
  assumes "length toks < n"
    and "\<forall>i<length toks. GPT__predict_token be s [row @ take i toks] = Inr [toks ! i]
                           \<and> toks ! i \<noteq> end_token"
    and "GPT__predict_token be s [row @ toks] = Inr [end_token]"
  shows "GPT_predict_loop be s n end_token [row] = Inr [row @ toks]"
  using assms
proof (induction toks arbitrary: row n)
  case Nil
  then obtain m where "n = Suc m" by (cases n) auto
  with Nil.prems(3) show ?case by (simp only: append_Nil2) (rule predict_loop_end)
next
  case (Cons t ts)
  then obtain m where n: "n = Suc m" and m: "length ts < m" by (cases n) auto
  from Cons.prems(2) [rule_format, of 0]
  have first: "GPT__predict_token be s [row] = Inr [t]" "t \<noteq> end_token"
    by simp_all
  have rest: "\<forall>i<length ts. GPT__predict_token be s [(row @ [t]) @ take i ts] = Inr [ts ! i]
                           \<and> ts ! i \<noteq> end_token"
  proof (intro allI impI)
    fix i assume "i < length ts"
    then have "Suc i < length (t # ts)" by simp
    from Cons.prems(2) [rule_format, OF this]
    show "GPT__predict_token be s [(row @ [t]) @ take i ts] = Inr [ts ! i]
                           \<and> ts ! i \<noteq> end_token" by simp
  qed
  from Cons.prems(3) have last: "GPT__predict_token be s [(row @ [t]) @ ts] = Inr [end_token]"
    by simp
  have "GPT_predict_loop be s n end_token [row]
        = GPT_predict_loop be s m end_token [row @ [t]]"
    unfolding n using first by (rule predict_loop_step)
  also have "\<dots> = Inr [(row @ [t]) @ ts]"
    using m rest last by (rule Cons.IH)
  finally show ?case by simp
qed

text \<open>
  C2. \<^verbatim>\<open>GPT.predict\<close> on a prompt of length \<open>P\<close> (a tensor of shape (1, P)) with
  \<open>limit_tokens = N \<ge> 0\<close>. The function is total: it is defined by recursion on the
  number of remaining iterations. When it returns, the result is one sequence of length
  at most \<open>P + N\<close> whose first \<open>P\<close> tokens are the prompt. It returns whenever every
  forward pass yields one token. If the greedy tokens of iterations \<open>0..k-1\<close> are
  \<open>toks\<close>, none of them the end token, and the greedy token of iteration \<open>k < N\<close> is the
  end token, the result is the prompt followed by \<open>toks\<close>: its length is \<open>P + k\<close> and the
  end token is not appended.
\<close>

theorem predict_greedy_decode:
  assumes "0 \<le> limit_tokens"
  shows "(\<forall>r. GPT_predict be s [prompt] limit_tokens end_token = Inr r \<longrightarrow>
            (\<exists>row. r = [row] \<and> int (length row) \<le> int (length prompt) + limit_tokens \<and>
                   take (length prompt) row = prompt)) \<and>
         ((\<forall>rows. \<exists>t. GPT__predict_token be s rows = Inr [t]) \<longrightarrow>
            (\<exists>r. GPT_predict be s [prompt] limit_tokens end_token = Inr r)) \<and>
         (\<forall>toks. int (length toks) < limit_tokens \<and>
            (\<forall>i<length toks. GPT__predict_token be s [prompt @ take i toks] = Inr [toks ! i]
                              \<and> toks ! i \<noteq> end_token) \<and>
            GPT__predict_token be s [prompt @ toks] = Inr [end_token] \<longrightarrow>
            GPT_predict be s [prompt] limit_tokens end_token = Inr [prompt @ toks] \<and>
            length (prompt @ toks) = length prompt + length toks)"
proof (intro conjI allI impI)
  fix r
  assume "GPT_predict be s [prompt] limit_tokens end_token = Inr r"
  then have "\<exists>toks. r = [prompt @ toks] \<and> length toks \<le> nat limit_tokens"
    unfolding GPT_predict_def by (rule predict_loop_extends)
  then obtain toks where toks: "r = [prompt @ toks]" "length toks \<le> nat limit_tokens"
    by (elim exE conjE)
  from toks(2) assms have "int (length (prompt @ toks)) \<le> int (length prompt) + limit_tokens"
    by simp
  with toks(1) show "\<exists>row. r = [row] \<and> int (length row) \<le> int (length prompt) + limit_tokens \<and>
                   take (length prompt) row = prompt"
    by simp
next
  assume "\<forall>rows. \<exists>t. GPT__predict_token be s rows = Inr [t]"
  then show "\<exists>r. GPT_predict be s [prompt] limit_tokens end_token = Inr r"
    unfolding GPT_predict_def by (rule predict_loop_returns)
next
  fix toks
  assume a: "int (length toks) < limit_tokens \<and>
            (\<forall>i<length toks. GPT__predict_token be s [prompt @ take i toks] = Inr [toks ! i]
                              \<and> toks ! i \<noteq> end_token) \<and>
            GPT__predict_token be s [prompt @ toks] = Inr [end_token]"
  then have "length toks < nat limit_tokens" by linarith
  with a show "GPT_predict be s [prompt] limit_tokens end_token = Inr [prompt @ toks]"
    unfolding GPT_predict_def by (intro predict_loop_stops) simp_all
  show "length (prompt @ toks) = length prompt + length toks" by simp
qed


theorem predict_greedy_decode_witness:
  "(0::int) \<le> 5 \<and>
   GPT__predict_token example_backend (example_gpt 0) [[7, 7]] = Inr [2] \<and>
   GPT__predict_token example_backend (example_gpt 0) [[7, 7, 2]] = Inr [3] \<and>
   GPT__predict_token example_backend (example_gpt 0) [[7, 7, 2, 3]] = Inr [4] \<and>
   GPT_predict example_backend (example_gpt 0) [[7, 7]] 5 4 = Inr [[7, 7, 2, 3]]"
proof -
  have t0: "GPT__predict_token example_backend (example_gpt 0) [[7, 7]] = Inr [2]"
    by code_simp
  have t1: "GPT__predict_token example_backend (example_gpt 0) [[7, 7, 2]] = Inr [3]"
    by code_simp
  have t2: "GPT__predict_token example_backend (example_gpt 0) [[7, 7, 2, 3]] = Inr [4]"
    by code_simp
  have greedy: "\<forall>i<length [2, 3::int].
      GPT__predict_token example_backend (example_gpt 0) [[7, 7] @ take i [2, 3]]
        = Inr [[2, 3] ! i] \<and> [2, 3] ! i \<noteq> (4::int)"
    using t0 t1 by (auto simp: less_Suc_eq)
  have "GPT_predict example_backend (example_gpt 0) [[7, 7]] 5 4 = Inr [[7, 7] @ [2, 3]]"
    using predict_greedy_decode [of 5 example_backend "example_gpt 0" "[7, 7]" 4]
      greedy t2 by simp
  with t0 t1 t2 show ?thesis by simp
qed

subsection \<open>Saving and loading checkpoints\<close>

lemma submodule_Nil: "submodule [] m = m"
  by (induction m) (auto simp: submodule_def)

lemma map_of_state_dict:
  "map_of (module_state_dict m) k = map_option param_data (map_of m k)"
  by (induction m) (auto simp: module_state_dict_def)

lemma map_of_present:
  "k \<in> set (map fst m) \<Longrightarrow> \<exists>p. map_of m k = Some p"
  by (induction m) auto

lemma state_dict_lookup_self:
  assumes "distinct (map fst sd)" and "set xs \<subseteq> set sd"
  shows "map (\<lambda>(n, t). (n, the (map_of sd n))) xs = xs"
  using assms(2)
proof (induction xs)
  case Nil
  show ?case by simp
next
  case (Cons x xs)
  obtain n t where x: "x = (n, t)" by (cases x)
  with Cons.prems have "(n, t) \<in> set sd" by simp
  with assms(1) have "map_of sd n = Some t" by simp
  with Cons x show ?case by simp
qed

lemma state_dict_after_load:
  assumes "\<forall>k\<in>set (map fst xs). \<exists>t. map_of sd k = Some t"
  shows "module_state_dict
           (map (\<lambda>(n, p). case map_of sd n of None \<Rightarrow> (n, p)
                          | Some t \<Rightarrow> (n, p\<lparr>param_data := t\<rparr>)) xs)
         = map (\<lambda>n. (n, the (map_of sd n))) (map fst xs)"
  using assms by (induction xs) (auto simp: module_state_dict_def)

text \<open>Loading a state dict into a module with the same parameter names and shapes.\<close>

lemma load_state_dict_same_topology:
  assumes names: "map fst m' = map fst m"
    and shapes: "map (\<lambda>(n, p). shape (param_data p)) m' = map (\<lambda>(n, p). shape (param_data p)) m"
    and dist: "distinct (map fst m)"
  shows "\<exists>m''. load_state_dict [] m' (module_state_dict m) = Inr m'' \<and>
               module_state_dict m'' = module_state_dict m"
proof -
  let ?sd = "module_state_dict m"
  have keys: "map fst ?sd = map fst m"
    by (induction m) (auto simp: module_state_dict_def)
  have present: "\<And>k. k \<in> set (map fst m') \<Longrightarrow> \<exists>t. map_of ?sd k = Some t"
    using map_of_present [of _ m] by (auto simp: names map_of_state_dict)
  have missing: "filter (\<lambda>k. map_of ?sd k = None) (map fst m') = []"
    using present by (auto simp: filter_empty_conv)
  have unexpected: "filter (\<lambda>k. k \<notin> set (map fst m')) (map fst ?sd) = []"
    by (simp add: keys names filter_empty_conv)
  have same_shape: "\<And>k p t. (k, p) \<in> set m' \<Longrightarrow> map_of ?sd k = Some t \<Longrightarrow>
                      shape t = shape (param_data p)"
  proof -
    fix k p t
    assume kp: "(k, p) \<in> set m'" and t: "map_of ?sd k = Some t"
    then obtain i where i: "i < length m'" "m' ! i = (k, p)"
      by (auto simp: in_set_conv_nth)
    have len: "length m' = length m"
      using names by (metis length_map)
    from i names len have ki: "fst (m ! i) = k"
      by (metis fst_conv nth_map)
    from i shapes len have si: "shape (param_data (snd (m ! i))) = shape (param_data p)"
      by (metis (mono_tags, lifting) case_prod_unfold nth_map snd_conv)
    from dist i len ki have "map_of m k = Some (snd (m ! i))"
      by (metis map_of_is_SomeI nth_mem prod.collapse)
    with t have "t = param_data (snd (m ! i))"
      by (simp add: map_of_state_dict)
    with si show "shape t = shape (param_data p)" by simp
  qed
  have mismatch: "filter (\<lambda>(k, p). case map_of ?sd k of None \<Rightarrow> False
                                   | Some t \<Rightarrow> shape t \<noteq> shape (param_data p)) m' = []"
    using same_shape by (auto simp: filter_empty_conv split: option.splits)
  let ?m'' = "map (\<lambda>(n, p). if prefix [] n
                        then (case map_of ?sd (drop (length ([]::string)) n) of None \<Rightarrow> (n, p)
                              | Some t \<Rightarrow> (n, p\<lparr>param_data := t\<rparr>))
                        else (n, p)) m'"
  have load: "load_state_dict [] m' ?sd = Inr ?m''"
    unfolding load_state_dict_def Let_def submodule_Nil
    using missing unexpected mismatch by simp
  have "module_state_dict ?m'' = map (\<lambda>n. (n, the (map_of ?sd n))) (map fst m')"
    using state_dict_after_load [of m' ?sd] present by simp
  also have "\<dots> = map (\<lambda>(n, t). (n, the (map_of ?sd n))) ?sd"
    unfolding names keys [symmetric] by (simp add: case_prod_unfold comp_def)
  also have "\<dots> = ?sd"
    using dist by (intro state_dict_lookup_self) (simp_all add: keys)
  finally show ?thesis using load by blast
qed

lemma optim_load_same_size:
  assumes "length (opt_params opt') = length (opt_params opt)"
  shows "\<exists>opt''. optim_load_state_dict opt' (optim_state_dict opt) = Inr opt'' \<and>
                 optim_state_dict opt'' = optim_state_dict opt"
  using assms by (simp add: optim_load_state_dict_def optim_state_dict_def)


lemma topology_names_shapes:
  assumes "map (\<lambda>(n, p). (n, shape (param_data p))) m' = map (\<lambda>(n, p). (n, shape (param_data p))) m"
  shows "map fst m' = map fst m"
    and "map (\<lambda>(n, p). shape (param_data p)) m' = map (\<lambda>(n, p). shape (param_data p)) m"
proof -
  from assms have "map fst (map (\<lambda>(n, p). (n, shape (param_data p))) m')
                   = map fst (map (\<lambda>(n, p). (n, shape (param_data p))) m)" by simp
  then show "map fst m' = map fst m"
    by (simp add: comp_def case_prod_unfold)
  from assms have "map snd (map (\<lambda>(n, p). (n, shape (param_data p))) m')
                   = map snd (map (\<lambda>(n, p). (n, shape (param_data p))) m)" by simp
  then show "map (\<lambda>(n, p). shape (param_data p)) m' = map (\<lambda>(n, p). shape (param_data p)) m"
    by (simp add: comp_def case_prod_unfold)
qed

lemma GPTPretrain_saved_file:
  assumes "GPTPretrain_save_model w s (Some path) = Inr (w1, s1)"
  shows "files w1 path =
     Some \<lparr>model_state_dict = module_state_dict (GPTPretrain.model s),
           optimizer_state_dict = optim_state_dict (GPTPretrain.optimizer s),
           epoch = GPTPretrain.epoch s\<rparr>"
    and "s1 = s\<lparr>GPTPretrain.checkpoint := Some path\<rparr>"
  using assms
  by (auto simp: GPTPretrain_save_model_def GPTPretrain__save_model_def print_def torch_save_def
      split: sum.splits option.splits)

lemma GPT_saved_file:
  assumes "GPT_save_model w g (Some path) = Inr (w1, g1)"
  shows "files w1 path =
     Some \<lparr>model_state_dict = module_state_dict (GPT.model g),
           optimizer_state_dict = optim_state_dict (GPT.optimizer g),
           epoch = GPT.epoch g\<rparr>"
    and "g1 = g\<lparr>GPT.checkpoint := Some path\<rparr>"
  using assms
  by (auto simp: GPT_save_model_def GPT__save_model_def print_def torch_save_def
      split: sum.splits option.splits)

lemma set_requires_grad_state_dict:
  "module_state_dict (set_requires_grad pre b m) = module_state_dict m"
  by (induction m) (auto simp: module_state_dict_def set_requires_grad_def)

lemma GPTPretrain_load_saved:
  assumes saved: "files w2 path =
     Some \<lparr>model_state_dict = module_state_dict (GPTPretrain.model s),
           optimizer_state_dict = optim_state_dict (GPTPretrain.optimizer s),
           epoch = GPTPretrain.epoch s\<rparr>"
    and dist: "distinct (map fst (GPTPretrain.model s))"
    and topo: "map (\<lambda>(n, p). (n, shape (param_data p))) (GPTPretrain.model s2)
               = map (\<lambda>(n, p). (n, shape (param_data p))) (GPTPretrain.model s)"
    and size: "length (opt_params (GPTPretrain.optimizer s2))
               = length (opt_params (GPTPretrain.optimizer s))"
  shows "\<exists>w' s'. GPTPretrain_load_model w2 s2 (Some path) = Inr (w', s') \<and>
          module_state_dict (GPTPretrain.model s') = module_state_dict (GPTPretrain.model s) \<and>
          optim_state_dict (GPTPretrain.optimizer s') = optim_state_dict (GPTPretrain.optimizer s) \<and>
          GPTPretrain.epoch s' = GPTPretrain.epoch s"
proof -
  from load_state_dict_same_topology [OF topology_names_shapes [OF topo] dist]
  obtain m where m: "load_state_dict [] (GPTPretrain.model s2)
                       (module_state_dict (GPTPretrain.model s)) = Inr m"
    and msd: "module_state_dict m = module_state_dict (GPTPretrain.model s)"
    by (elim exE conjE)
  from optim_load_same_size [OF size]
  obtain opt where opt: "optim_load_state_dict (GPTPretrain.optimizer s2)
                           (optim_state_dict (GPTPretrain.optimizer s)) = Inr opt"
    and osd: "optim_state_dict opt = optim_state_dict (GPTPretrain.optimizer s)"
    by (elim exE conjE)
  have "GPTPretrain_load_model w2 s2 (Some path) =
          Inr (w2, s2\<lparr>GPTPretrain.model := m, GPTPretrain.optimizer := opt,
                       GPTPretrain.epoch := GPTPretrain.epoch s,
                       GPTPretrain.checkpoint := Some path\<rparr>)"
    by (simp add: GPTPretrain_load_model_def GPTPretrain__load_model_def os_path_exists_def
        torch_load_def saved m opt)
  with msd osd show ?thesis by simp
qed

lemma GPT_load_saved:
  assumes saved: "files w2 path =
     Some \<lparr>model_state_dict = module_state_dict (GPT.model g),
           optimizer_state_dict = optim_state_dict (GPT.optimizer g),
           epoch = GPT.epoch g\<rparr>"
    and dist: "distinct (map fst (GPT.model g))"
    and topo: "map (\<lambda>(n, p). (n, shape (param_data p))) (GPT.model g2)
               = map (\<lambda>(n, p). (n, shape (param_data p))) (GPT.model g)"
    and size: "length (opt_params (GPT.optimizer g2)) = length (opt_params (GPT.optimizer g))"
  shows "\<exists>w' g'. GPT_load_model w2 g2 (Some path) = Inr (w', g') \<and>
          module_state_dict (GPT.model g') = module_state_dict (GPT.model g) \<and>
          optim_state_dict (GPT.optimizer g') = optim_state_dict (GPT.optimizer g) \<and>
          GPT.epoch g' = GPT.epoch g"
proof -
  from load_state_dict_same_topology [OF topology_names_shapes [OF topo] dist]
  obtain m where m: "load_state_dict [] (GPT.model g2) (module_state_dict (GPT.model g)) = Inr m"
    and msd: "module_state_dict m = module_state_dict (GPT.model g)"
    by (elim exE conjE)
  from optim_load_same_size [OF size]
  obtain opt where opt: "optim_load_state_dict (GPT.optimizer g2)
                           (optim_state_dict (GPT.optimizer g)) = Inr opt"
    and osd: "optim_state_dict opt = optim_state_dict (GPT.optimizer g)"
    by (elim exE conjE)
  have "GPT_load_model w2 g2 (Some path) =
          Inr (w2, g2\<lparr>GPT.model := set_requires_grad ''pretrained_model.decoder.linear.'' True
                                      (set_requires_grad ''pretrained_model.'' False m),
                       GPT.optimizer := opt, GPT.epoch := GPT.epoch g, training := True,
                       GPT.checkpoint := Some path\<rparr>)"
    by (simp add: GPT_load_model_def GPT__load_model_def os_path_exists_def
        torch_load_def saved m opt)
  with msd osd show ?thesis by (simp add: set_requires_grad_state_dict)
qed

text \<open>
  C4. Checkpoint round trip, for \<^verbatim>\<open>GPTPretrain\<close> and for \<^verbatim>\<open>GPT\<close>. A trainer saves
  with \<^verbatim>\<open>save_model(path)\<close>, and the save returns. Later \<^verbatim>\<open>load_model(path)\<close> is called
  in an environment where the file still has the saved content, by a trainer of the same
  topology: its model has the same parameter names and shapes and its optimizer as many
  parameters (the saving trainer itself after any number of training steps, or a fresh
  instance of the same architecture). Then the load succeeds, and the model's state dict,
  the optimizer's state dict and the epoch counter are those of the saving trainer at save
  time. The parameter names of a module are distinct.
\<close>

theorem checkpoint_round_trip:
  "(distinct (map fst (GPTPretrain.model s)) \<and>
    map (\<lambda>(n, p). (n, shape (param_data p))) (GPTPretrain.model s2)
      = map (\<lambda>(n, p). (n, shape (param_data p))) (GPTPretrain.model s) \<and>
    length (opt_params (GPTPretrain.optimizer s2))
      = length (opt_params (GPTPretrain.optimizer s)) \<and>
    GPTPretrain_save_model w s (Some path) = Inr (w1, s1) \<and>
    files w2 path = files w1 path \<longrightarrow>
    (\<exists>w' s'. GPTPretrain_load_model w2 s2 (Some path) = Inr (w', s') \<and>
       module_state_dict (GPTPretrain.model s') = module_state_dict (GPTPretrain.model s) \<and>
       optim_state_dict (GPTPretrain.optimizer s')
         = optim_state_dict (GPTPretrain.optimizer s) \<and>
       GPTPretrain.epoch s' = GPTPretrain.epoch s)) \<and>
   (distinct (map fst (GPT.model g)) \<and>
    map (\<lambda>(n, p). (n, shape (param_data p))) (GPT.model g2)
      = map (\<lambda>(n, p). (n, shape (param_data p))) (GPT.model g) \<and>
    length (opt_params (GPT.optimizer g2)) = length (opt_params (GPT.optimizer g)) \<and>
    GPT_save_model v g (Some path') = Inr (v1, g1) \<and>
    files v2 path' = files v1 path' \<longrightarrow>
    (\<exists>v' g'. GPT_load_model v2 g2 (Some path') = Inr (v', g') \<and>
       module_state_dict (GPT.model g') = module_state_dict (GPT.model g) \<and>
       optim_state_dict (GPT.optimizer g') = optim_state_dict (GPT.optimizer g) \<and>
       GPT.epoch g' = GPT.epoch g))"
proof (intro conjI impI)
  assume a: "distinct (map fst (GPTPretrain.model s)) \<and>
    map (\<lambda>(n, p). (n, shape (param_data p))) (GPTPretrain.model s2)
      = map (\<lambda>(n, p). (n, shape (param_data p))) (GPTPretrain.model s) \<and>
    length (opt_params (GPTPretrain.optimizer s2))
      = length (opt_params (GPTPretrain.optimizer s)) \<and>
    GPTPretrain_save_model w s (Some path) = Inr (w1, s1) \<and>
    files w2 path = files w1 path"
  then have saved: "files w2 path =
     Some \<lparr>model_state_dict = module_state_dict (GPTPretrain.model s),
           optimizer_state_dict = optim_state_dict (GPTPretrain.optimizer s),
           epoch = GPTPretrain.epoch s\<rparr>"
    using GPTPretrain_saved_file(1) [of w s path w1 s1] by simp
  from a show "\<exists>w' s'. GPTPretrain_load_model w2 s2 (Some path) = Inr (w', s') \<and>
       module_state_dict (GPTPretrain.model s') = module_state_dict (GPTPretrain.model s) \<and>
       optim_state_dict (GPTPretrain.optimizer s')
         = optim_state_dict (GPTPretrain.optimizer s) \<and>
       GPTPretrain.epoch s' = GPTPretrain.epoch s"
    by (intro GPTPretrain_load_saved [OF saved]) simp_all
next
  assume a: "distinct (map fst (GPT.model g)) \<and>
    map (\<lambda>(n, p). (n, shape (param_data p))) (GPT.model g2)
      = map (\<lambda>(n, p). (n, shape (param_data p))) (GPT.model g) \<and>
    length (opt_params (GPT.optimizer g2)) = length (opt_params (GPT.optimizer g)) \<and>
    GPT_save_model v g (Some path') = Inr (v1, g1) \<and>
    files v2 path' = files v1 path'"
  then have saved: "files v2 path' =
     Some \<lparr>model_state_dict = module_state_dict (GPT.model g),
           optimizer_state_dict = optim_state_dict (GPT.optimizer g),
           epoch = GPT.epoch g\<rparr>"
    using GPT_saved_file(1) [of v g path' v1 g1] by simp
  from a show "\<exists>v' g'. GPT_load_model v2 g2 (Some path') = Inr (v', g') \<and>
       module_state_dict (GPT.model g') = module_state_dict (GPT.model g) \<and>
       optim_state_dict (GPT.optimizer g') = optim_state_dict (GPT.optimizer g) \<and>
       GPT.epoch g' = GPT.epoch g"
    by (intro GPT_load_saved [OF saved]) simp_all
qed

theorem checkpoint_round_trip_witness:
  "(case GPTPretrain_save_model empty_world
           ((example_pretrain 5)\<lparr>GPTPretrain.epoch := 3\<rparr>) (Some ''a.pt'') of
      Inl e \<Rightarrow> False
    | Inr (w1, s1) \<Rightarrow>
        (case GPTPretrain_load_model w1 (example_pretrain 0) (Some ''a.pt'') of
           Inl e \<Rightarrow> False
         | Inr (w', s') \<Rightarrow>
             module_state_dict (GPTPretrain.model s') = module_state_dict (example_lm 5) \<and>
             GPTPretrain.epoch s' = 3)) \<and>
   (case GPT_save_model empty_world ((example_gpt 7)\<lparr>GPT.epoch := 2\<rparr>) (Some ''b.pt'') of
      Inl e \<Rightarrow> False
    | Inr (v1, g1) \<Rightarrow>
        (case GPT_load_model v1 (example_gpt 0) (Some ''b.pt'') of
           Inl e \<Rightarrow> False
         | Inr (v', g') \<Rightarrow>
             module_state_dict (GPT.model g') = module_state_dict (example_model 7) \<and>
             GPT.epoch g' = 2))"
proof -
  have pre: "distinct (map fst (GPTPretrain.model ((example_pretrain 5)\<lparr>GPTPretrain.epoch := 3\<rparr>))) \<and>
    map (\<lambda>(n, p). (n, shape (param_data p))) (GPTPretrain.model (example_pretrain 0))
      = map (\<lambda>(n, p). (n, shape (param_data p)))
          (GPTPretrain.model ((example_pretrain 5)\<lparr>GPTPretrain.epoch := 3\<rparr>)) \<and>
    length (opt_params (GPTPretrain.optimizer (example_pretrain 0)))
      = length (opt_params (GPTPretrain.optimizer ((example_pretrain 5)\<lparr>GPTPretrain.epoch := 3\<rparr>)))"
    by code_simp
  have ft: "distinct (map fst (GPT.model ((example_gpt 7)\<lparr>GPT.epoch := 2\<rparr>))) \<and>
    map (\<lambda>(n, p). (n, shape (param_data p))) (GPT.model (example_gpt 0))
      = map (\<lambda>(n, p). (n, shape (param_data p))) (GPT.model ((example_gpt 7)\<lparr>GPT.epoch := 2\<rparr>)) \<and>
    length (opt_params (GPT.optimizer (example_gpt 0)))
      = length (opt_params (GPT.optimizer ((example_gpt 7)\<lparr>GPT.epoch := 2\<rparr>)))"
    by code_simp
  have vals: "GPTPretrain.model ((example_pretrain 5)\<lparr>GPTPretrain.epoch := 3\<rparr>) = example_lm 5"
    "GPTPretrain.epoch ((example_pretrain 5)\<lparr>GPTPretrain.epoch := 3\<rparr>) = 3"
    "GPT.model ((example_gpt 7)\<lparr>GPT.epoch := 2\<rparr>) = example_model 7"
    "GPT.epoch ((example_gpt 7)\<lparr>GPT.epoch := 2\<rparr>) = 2"
    by (simp_all add: example_pretrain_def example_gpt_def)
  obtain w1 s1 where save1: "GPTPretrain_save_model empty_world
      ((example_pretrain 5)\<lparr>GPTPretrain.epoch := 3\<rparr>) (Some ''a.pt'') = Inr (w1, s1)"
    by (simp add: GPTPretrain_save_model_def GPTPretrain__save_model_def torch_save_def
        empty_world_def)
  obtain v1 g1 where save2: "GPT_save_model empty_world ((example_gpt 7)\<lparr>GPT.epoch := 2\<rparr>)
      (Some ''b.pt'') = Inr (v1, g1)"
    by (simp add: GPT_save_model_def GPT__save_model_def torch_save_def empty_world_def)
  note rt = checkpoint_round_trip
    [where s = "(example_pretrain 5)\<lparr>GPTPretrain.epoch := 3\<rparr>" and ?s2.0 = "example_pretrain 0"
       and w = empty_world and path = "''a.pt''" and ?w1.0 = w1 and ?s1.0 = s1 and ?w2.0 = w1
       and g = "(example_gpt 7)\<lparr>GPT.epoch := 2\<rparr>" and ?g2.0 = "example_gpt 0"
       and v = empty_world and path' = "''b.pt''" and ?v1.0 = v1 and ?g1.0 = g1 and ?v2.0 = v1]
  from rt pre ft save1 save2 show ?thesis
    unfolding vals by auto
qed

subsection \<open>The flag set by loading\<close>

lemma load_pretrained_keeps_training:
  "GPT_load_pretrained_model w s path = Inr (w', s') \<Longrightarrow> training s' = training s"
  by (auto simp: GPT_load_pretrained_model_def split: sum.splits)

lemma load_model_sets_training:
  "os_path_exists w p \<Longrightarrow> GPT_load_model w s (Some p) = Inr (w', s') \<Longrightarrow> training s'"
  by (auto simp: GPT_load_model_def GPT__load_model_def split: sum.splits)

text \<open>
  C5, the code at a failing input. A fine-tune trainer without configured checkpoint
  loads the existing pretraining checkpoint \<^verbatim>\<open>pre.pt\<close> with
  \<^verbatim>\<open>load_pretrained_model\<close>. The call succeeds and the flag \<^verbatim>\<open>training\<close> is still
  false: only \<^verbatim>\<open>__load_model\<close> assigns it. A following \<^verbatim>\<open>fit\<close> with the default
  \<^verbatim>\<open>pretrained_path=None\<close> therefore calls \<^verbatim>\<open>load_pretrained_model(None)\<close> again, and
  \<^verbatim>\<open>torch.load(None)\<close> raises.
\<close>

theorem load_pretrained_model_training_flag:
  "(case GPT_load_pretrained_model example_world (example_gpt 0) (Some ''pre.pt'') of
      Inl e \<Rightarrow> False
    | Inr (w', s') \<Rightarrow>
        training s' = False \<and>
        (case GPT_fit example_backend w' s' [[1, 2]] [[0]] None 1 1 1 False of
           Inl e \<Rightarrow> e = AttributeError
         | Inr r \<Rightarrow> False))"
  by code_simp

text \<open>
  C7, amended. \<^verbatim>\<open>GPT.fit\<close> on a trainer with no configured checkpoint and a false
  \<^verbatim>\<open>training\<close> flag, called without \<^verbatim>\<open>pretrained_path\<close>, raises and trains nothing: it
  makes no check of \<^verbatim>\<open>pretrained_path\<close> and reaches \<^verbatim>\<open>load_pretrained_model(None)\<close>,
  whose \<^verbatim>\<open>torch.load(None)\<close> raises \<^verbatim>\<open>AttributeError\<close>, before the summary, the data
  loader and every training step. A trainer constructed without checkpoint is in that
  state.
\<close>

theorem fit_without_checkpoint_raises:
  "(GPT.checkpoint s = None \<and> training s = False \<longrightarrow>
      GPT_fit be w s inputs labels None bsize epochs mini_batch shuffle_data
        = Inl AttributeError) \<and>
   (\<forall>w1 s1. GPT_init w embedding_layer decoder classifier optimizer_arg learning_rate None
               = Inr (w1, s1) \<longrightarrow>
      GPT_fit be w1 s1 inputs labels None bsize epochs mini_batch shuffle_data
        = Inl AttributeError)"
proof (intro conjI allI impI)
  assume "GPT.checkpoint s = None \<and> training s = False"
  then show "GPT_fit be w s inputs labels None bsize epochs mini_batch shuffle_data
        = Inl AttributeError"
    by (simp add: GPT_fit_def GPT_load_pretrained_model_def torch_load_def)
next
  fix w1 s1
  assume "GPT_init w embedding_layer decoder classifier optimizer_arg learning_rate None
               = Inr (w1, s1)"
  then have "GPT.checkpoint s1 = None \<and> training s1 = False"
    by (auto simp: GPT_init_def Let_def split: sum.splits)
  then show "GPT_fit be w1 s1 inputs labels None bsize epochs mini_batch shuffle_data
        = Inl AttributeError"
    by (simp add: GPT_fit_def GPT_load_pretrained_model_def torch_load_def)
qed

theorem fit_without_checkpoint_raises_witness:
  "GPT.checkpoint (example_gpt 0) = None \<and> training (example_gpt 0) = False \<and>
   GPT_fit example_backend empty_world (example_gpt 0) [[1, 2]] [[0]] None 1 1 1 True
     = Inl AttributeError"
  using fit_without_checkpoint_raises
          [of "example_gpt 0" example_backend empty_world "[[1, 2]]" "[[0]]" 1 1 1 True]
  by (simp add: example_gpt_def)

text \<open>
  C7 as stated fails: the error is not a configuration error raised by \<^verbatim>\<open>fit\<close>; it is
  the \<^verbatim>\<open>AttributeError\<close> with which \<^verbatim>\<open>torch.load\<close> answers the argument None.
\<close>

theorem fit_without_pretrained_path_error:
  "(case GPT_fit example_backend empty_world (example_gpt 0) [[1, 2]] [[0]] None 1 1 1 True of
      Inl e \<Rightarrow> e = AttributeError \<and> torch_load empty_world None = Inl e
    | Inr r \<Rightarrow> False)"
  by (simp add: GPT_fit_def GPT_load_pretrained_model_def torch_load_def example_gpt_def)

subsection \<open>Loading from a path without file\<close>

text \<open>
  C6, amended. For a path without file, \<^verbatim>\<open>GPTPretrain.load_model\<close> and
  \<^verbatim>\<open>GPT.load_model\<close> do not raise: called with the path, they leave the model, the
  optimizer and the epoch counter as they are and record the path as the configured
  checkpoint; called without path on a trainer configured with it, they change nothing.
\<close>

theorem load_model_missing_file:
  assumes "files w path = None"
  shows "GPTPretrain_load_model w s (Some path)
           = Inr (w, s\<lparr>GPTPretrain.checkpoint := Some path\<rparr>) \<and>
         (GPTPretrain.checkpoint s = Some path \<longrightarrow> GPTPretrain_load_model w s None = Inr (w, s)) \<and>
         GPT_load_model w g (Some path) = Inr (w, g\<lparr>GPT.checkpoint := Some path\<rparr>) \<and>
         (GPT.checkpoint g = Some path \<longrightarrow> GPT_load_model w g None = Inr (w, g))"
  using assms
  by (simp add: GPTPretrain_load_model_def GPTPretrain__load_model_def GPT_load_model_def
      GPT__load_model_def os_path_exists_def)

theorem load_model_missing_file_witness:
  "files empty_world ''missing.pt'' = None \<and>
   GPTPretrain_load_model empty_world (example_pretrain 0) (Some ''missing.pt'')
     = Inr (empty_world, (example_pretrain 0)\<lparr>GPTPretrain.checkpoint := Some ''missing.pt''\<rparr>) \<and>
   GPT_load_model empty_world (example_gpt 0) (Some ''missing.pt'')
     = Inr (empty_world, (example_gpt 0)\<lparr>GPT.checkpoint := Some ''missing.pt''\<rparr>)"
  using load_model_missing_file [of empty_world "''missing.pt''" "example_pretrain 0" "example_gpt 0"]
  by (simp add: empty_world_def)

text \<open>
  C6 as stated fails for \<^verbatim>\<open>GPT.load_pretrained_model\<close>, which calls \<^verbatim>\<open>torch.load\<close>
  without testing that the file exists: for a path without file it raises
  \<^verbatim>\<open>FileNotFoundError\<close>.
\<close>

theorem load_pretrained_model_missing_file:
  "files empty_world ''missing.pt'' = None \<and>
   GPT_load_pretrained_model empty_world (example_gpt 0) (Some ''missing.pt'')
     = Inl FileNotFoundError"
  by (simp add: GPT_load_pretrained_model_def torch_load_def empty_world_def)

subsection \<open>Explicit and configured checkpoint paths\<close>

text \<open>
  \<^verbatim>\<open>GPT.save_model\<close> and \<^verbatim>\<open>GPT.load_model\<close> choose the path as \<^verbatim>\<open>GPTPretrain\<close>'s
  do: an explicit path is used and, when the private save or load returns, becomes the
  configured checkpoint (an error of \<^verbatim>\<open>torch.save\<close> or of the load leaves it as it was);
  without path the configured checkpoint path is used.
\<close>

lemma save_model_path:
  "(\<forall>w' g'. GPT_save_model w g (Some p) = Inr (w', g') \<longrightarrow>
      (\<exists>g1. GPT__save_model w g p = Inr (w', g1)) \<and> g' = g\<lparr>GPT.checkpoint := Some p\<rparr>) \<and>
   (\<forall>e. GPT_save_model w g (Some p) = Inl e \<longrightarrow> GPT__save_model w g p = Inl e) \<and>
   (GPT.checkpoint g = Some c \<longrightarrow> GPT_save_model w g None = GPT__save_model w g c) \<and>
   (\<forall>w' s'. GPTPretrain_save_model w s (Some p) = Inr (w', s') \<longrightarrow>
      (\<exists>s1. GPTPretrain__save_model w s p = Inr (w', s1)) \<and>
      s' = s\<lparr>GPTPretrain.checkpoint := Some p\<rparr>) \<and>
   (\<forall>e. GPTPretrain_save_model w s (Some p) = Inl e \<longrightarrow>
      GPTPretrain__save_model w s p = Inl e) \<and>
   (GPTPretrain.checkpoint s = Some c \<longrightarrow>
      GPTPretrain_save_model w s None = GPTPretrain__save_model w s c)"
  by (auto simp: GPT_save_model_def GPTPretrain_save_model_def GPT__save_model_def
      GPTPretrain__save_model_def split: sum.splits)

lemma load_model_path:
  "(\<forall>w' g'. GPT_load_model w g (Some p) = Inr (w', g') \<longrightarrow>
      (\<exists>g1. GPT__load_model w g p = Inr (w', g1) \<and> g' = g1\<lparr>GPT.checkpoint := Some p\<rparr>)) \<and>
   (GPT.checkpoint g = Some c \<longrightarrow> GPT_load_model w g None = GPT__load_model w g c) \<and>
   (\<forall>w' s'. GPTPretrain_load_model w s (Some p) = Inr (w', s') \<longrightarrow>
      (\<exists>s1. GPTPretrain__load_model w s p = Inr (w', s1) \<and>
            s' = s1\<lparr>GPTPretrain.checkpoint := Some p\<rparr>)) \<and>
   (GPTPretrain.checkpoint s = Some c \<longrightarrow>
      GPTPretrain_load_model w s None = GPTPretrain__load_model w s c)"
  by (auto simp: GPT_load_model_def GPTPretrain_load_model_def split: sum.splits)

text \<open>
  Saving returns exactly on a path that can be written; on another path the error of
  \<^verbatim>\<open>torch.save\<close> propagates, before \<^verbatim>\<open>self.checkpoint = path\<close>.
\<close>

lemma save_model_returns:
  assumes "write_error w p = None"
  shows "(\<exists>w'. GPT_save_model w g (Some p) = Inr (w', g\<lparr>GPT.checkpoint := Some p\<rparr>) \<and>
               files w' p = Some \<lparr>model_state_dict = module_state_dict (GPT.model g),
                                  optimizer_state_dict = optim_state_dict (GPT.optimizer g),
                                  epoch = GPT.epoch g\<rparr>) \<and>
         (\<exists>w'. GPTPretrain_save_model w s (Some p)
                 = Inr (w', s\<lparr>GPTPretrain.checkpoint := Some p\<rparr>) \<and>
               files w' p = Some \<lparr>model_state_dict = module_state_dict (GPTPretrain.model s),
                                  optimizer_state_dict =
                                    optim_state_dict (GPTPretrain.optimizer s),
                                  epoch = GPTPretrain.epoch s\<rparr>)"
  using assms
  by (simp add: GPT_save_model_def GPTPretrain_save_model_def GPT__save_model_def
      GPTPretrain__save_model_def torch_save_def print_def)

lemma save_model_raises:
  assumes "write_error w p = Some e"
  shows "GPT_save_model w g (Some p) = Inl e \<and> GPTPretrain_save_model w s (Some p) = Inl e"
  using assms
  by (simp add: GPT_save_model_def GPTPretrain_save_model_def GPT__save_model_def
      GPTPretrain__save_model_def torch_save_def)

text \<open>
  C8, the code at a failing input. On a \<^verbatim>\<open>GPT\<close> trainer with no configured checkpoint,
  \<^verbatim>\<open>save_model()\<close> and \<^verbatim>\<open>load_model()\<close> without path return normally and change
  nothing, but print nothing: the methods have no branch for this case. On a
  \<^verbatim>\<open>GPTPretrain\<close> trainer in the same situation both methods print
  \<^verbatim>\<open>Checkpoint not found\<close>.
\<close>

theorem GPT_no_checkpoint_not_reported:
  "GPT.checkpoint (example_gpt 0) = None \<and>
   (case GPT_save_model empty_world (example_gpt 0) None of
      Inl e \<Rightarrow> False
    | Inr (w', g') \<Rightarrow> stdout w' = [] \<and> g' = example_gpt 0) \<and>
   (case GPT_load_model empty_world (example_gpt 0) None of
      Inl e \<Rightarrow> False
    | Inr (w', g') \<Rightarrow> stdout w' = [] \<and> g' = example_gpt 0) \<and>
   GPTPretrain.checkpoint (example_pretrain 0) = None \<and>
   (case GPTPretrain_save_model empty_world (example_pretrain 0) None of
      Inl e \<Rightarrow> False
    | Inr (w', s') \<Rightarrow> stdout w' = [Checkpoint_not_found]) \<and>
   (case GPTPretrain_load_model empty_world (example_pretrain 0) None of
      Inl e \<Rightarrow> False
    | Inr (w', s') \<Rightarrow> stdout w' = [Checkpoint_not_found])"
  by (simp add: GPT_save_model_def GPT_load_model_def GPTPretrain_save_model_def
      GPTPretrain_load_model_def example_gpt_def example_pretrain_def empty_world_def print_def)

subsection \<open>The optimizer of a constructed trainer\<close>

lemma optim_load_keeps_class:
  "optim_load_state_dict opt sd = Inr opt' \<Longrightarrow>
   opt_class opt' = opt_class opt \<and> opt_params opt' = opt_params opt"
  by (auto simp: optim_load_state_dict_def split: if_splits)

lemma GPT_load_model_keeps_optimizer:
  assumes "GPT_load_model w s path = Inr (w', s')"
  shows "opt_class (GPT.optimizer s') = opt_class (GPT.optimizer s) \<and>
         opt_params (GPT.optimizer s') = opt_params (GPT.optimizer s) \<and>
         parameters (GPT.model s') = parameters (GPT.model s)"
  using assms
  by (auto simp: GPT_load_model_def GPT__load_model_def parameters_def
      set_requires_grad_names
      dest!: optim_load_keeps_class load_state_dict_names
      split: sum.splits option.splits if_splits)

lemma GPTPretrain_load_model_keeps_optimizer:
  assumes "GPTPretrain_load_model w s path = Inr (w', s')"
  shows "opt_class (GPTPretrain.optimizer s') = opt_class (GPTPretrain.optimizer s) \<and>
         opt_params (GPTPretrain.optimizer s') = opt_params (GPTPretrain.optimizer s) \<and>
         parameters (GPTPretrain.model s') = parameters (GPTPretrain.model s)"
  using assms
  by (auto simp: GPTPretrain_load_model_def GPTPretrain__load_model_def parameters_def
      dest!: optim_load_keeps_class load_state_dict_names
      split: sum.splits option.splits if_splits)

text \<open>
  C10. \<^verbatim>\<open>GPT.__init__\<close> does not read its \<^verbatim>\<open>optimizer\<close> argument: the construction is
  the same for every value of it, and the optimizer of a constructed \<^verbatim>\<open>GPT\<close> is an Adam
  optimizer over the parameters of its fine-tune model. The optimizer of a constructed
  \<^verbatim>\<open>GPTPretrain\<close> is an instance of the class it was given, over the parameters of its
  model.
\<close>

theorem GPT_init_optimizer:
  "GPT_init (w :: 'o world) embedding_layer decoder classifier optimizer_arg learning_rate ckpt
     = GPT_init w embedding_layer decoder classifier optimizer_arg' learning_rate ckpt \<and>
   (\<forall>w' s. GPT_init w embedding_layer decoder classifier optimizer_arg learning_rate ckpt
             = Inr (w', s) \<longrightarrow>
      opt_class (GPT.optimizer s) = Adam \<and>
      opt_params (GPT.optimizer s) = parameters (GPT.model s)) \<and>
   (\<forall>w' s. GPTPretrain_init w embedding_layer decoder emb_dim learning_rate optimizer_arg ckpt'
             = Inr (w', s) \<longrightarrow>
      opt_class (GPTPretrain.optimizer s) = optimizer_arg \<and>
      opt_params (GPTPretrain.optimizer s) = parameters (GPTPretrain.model s))"
proof -
  have same: "GPT_init w embedding_layer decoder classifier optimizer_arg learning_rate ckpt
     = GPT_init w embedding_layer decoder classifier optimizer_arg' learning_rate ckpt"
    by (simp add: GPT_init_def)
  have gpt: "opt_class (GPT.optimizer s) = Adam \<and>
        opt_params (GPT.optimizer s) = parameters (GPT.model s)"
    if a: "GPT_init w embedding_layer decoder classifier optimizer_arg learning_rate ckpt
             = Inr (w', s)" for w' s
  proof -
    let ?m = "GPTFineTune_init embedding_layer decoder classifier"
    from a obtain opt :: "'o optimizer"
      where opt: "new_optimizer Adam (parameters ?m) learning_rate = Inr opt"
      by (auto simp: GPT_init_def Let_def split: sum.splits)
    let ?s0 = "\<lparr>GPT.model = ?m, GPT.optimizer = opt, GPT.epoch = 0, GPT.checkpoint = ckpt,
                 GPT.entropy_loss = 0, training = False\<rparr>"
    from opt have o0: "opt_class opt = Adam" "opt_params opt = parameters ?m"
      by (auto simp: new_optimizer_def split: if_splits)
    show ?thesis
    proof (cases ckpt)
      case None
      with a opt o0 show ?thesis by (auto simp: GPT_init_def Let_def)
    next
      case (Some c)
      with a opt have "GPT_load_model w ?s0 (Some c) = Inr (w', s)"
        by (simp add: GPT_init_def Let_def)
      from GPT_load_model_keeps_optimizer [OF this] o0 show ?thesis by simp
    qed
  qed
  have pre: "opt_class (GPTPretrain.optimizer s) = optimizer_arg \<and>
        opt_params (GPTPretrain.optimizer s) = parameters (GPTPretrain.model s)"
    if a: "GPTPretrain_init w embedding_layer decoder emb_dim learning_rate optimizer_arg ckpt'
             = Inr (w', s)" for w' s
  proof -
    let ?m = "GPTModel_init embedding_layer decoder"
    from a obtain opt :: "'o optimizer"
      where opt: "new_optimizer optimizer_arg (parameters ?m) learning_rate = Inr opt"
      by (auto simp: GPTPretrain_init_def Let_def split: sum.splits)
    let ?s0 = "\<lparr>GPTPretrain.model = ?m, embedding_dim = emb_dim,
                 GPTPretrain.checkpoint = ckpt', GPTPretrain.optimizer = opt,
                 GPTPretrain.entropy_loss = 0, perplexity = 0, GPTPretrain.epoch = 0\<rparr>"
    from opt have o0: "opt_class opt = optimizer_arg" "opt_params opt = parameters ?m"
      by (auto simp: new_optimizer_def split: if_splits)
    show ?thesis
    proof (cases ckpt')
      case None
      with a opt o0 show ?thesis by (auto simp: GPTPretrain_init_def Let_def)
    next
      case (Some c)
      with a opt have "GPTPretrain_load_model w ?s0 (Some c) = Inr (w', s)"
        by (simp add: GPTPretrain_init_def Let_def)
      from GPTPretrain_load_model_keeps_optimizer [OF this] o0 show ?thesis by simp
    qed
  qed
  from same gpt pre show ?thesis by blast
qed

theorem GPT_init_optimizer_witness:
  "(case GPT_init example_world [(''weight'', example_param 0 True)]
          [(''block.weight'', example_param 0 True), (''linear.weight'', example_param 0 True)]
          [(''weight'', example_param 0 True)] SGD 1 (Some ''ft.pt'') of
      Inl e \<Rightarrow> False
    | Inr (w', s) \<Rightarrow> opt_class (GPT.optimizer s) = Adam \<and>
        opt_params (GPT.optimizer s) = parameters (GPT.model s)) \<and>
   (case GPTPretrain_init example_world [(''weight'', example_param 0 True)]
          [(''block.weight'', example_param 0 True), (''linear.weight'', example_param 0 True)]
          1 1 SGD (Some ''pre.pt'') of
      Inl e \<Rightarrow> False
    | Inr (w', s) \<Rightarrow> opt_class (GPTPretrain.optimizer s) = SGD)"
proof -
  have ok: "(case GPT_init example_world [(''weight'', example_param 0 True)]
          [(''block.weight'', example_param 0 True), (''linear.weight'', example_param 0 True)]
          [(''weight'', example_param 0 True)] SGD 1 (Some ''ft.pt'') of
      Inl e \<Rightarrow> False | Inr r \<Rightarrow> True) \<and>
   (case GPTPretrain_init example_world [(''weight'', example_param 0 True)]
          [(''block.weight'', example_param 0 True), (''linear.weight'', example_param 0 True)]
          1 1 SGD (Some ''pre.pt'') of
      Inl e \<Rightarrow> False | Inr r \<Rightarrow> True)"
    by code_simp
  from ok GPT_init_optimizer
     [where w = example_world and embedding_layer = "[(''weight'', example_param 0 True)]"
       and decoder = "[(''block.weight'', example_param 0 True),
                       (''linear.weight'', example_param 0 True)]"
       and classifier = "[(''weight'', example_param 0 True)]" and optimizer_arg = SGD
       and learning_rate = 1 and ckpt = "Some ''ft.pt''" and optimizer_arg' = SGD
       and emb_dim = 1 and ckpt' = "Some ''pre.pt''"]
  show ?thesis
    by (auto split: sum.splits)
qed

subsection \<open>Progress reports of one epoch\<close>



























































end
